theory Spec2Isabelle
  imports Complex_Main "HOL-Library.Word"
begin

section \<open>Machine integers and loops\<close>

text \<open>
  \<open>std::size_t\<close> and \<open>uint64_t\<close> are 64-bit words, \<open>unsigned int\<close> is a 32-bit word;
  \<open>+\<close> and \<open>*\<close> on them wrap around as in C++.
\<close>

type_synonym u32 = "32 word"
type_synonym u64 = "64 word"

text \<open>
  The event loops of both executables have the shape
  \<^verbatim>\<open>for (T event = skip; event < events + skip; ++event) { body }\<close>
  with an unsigned \<open>T\<close>. The loop variable is a word; the body does not assign it. Since
  \<open>event < bound\<close> holds when \<open>++event\<close> runs, the increment never wraps and the loop
  always ends.
\<close>

function for_loop :: "'a::len word \<Rightarrow> 'a word \<Rightarrow> ('a word \<Rightarrow> 's \<Rightarrow> 's) \<Rightarrow> 's \<Rightarrow> 's" where
  "for_loop event bound body s =
     (if event < bound then for_loop (event + 1) bound body (body event s) else s)"
  by pat_completeness auto
termination
proof (relation "measure (\<lambda>(event, bound, body, s). unat bound - unat event)")
  fix event bound :: "'a word" and body :: "'a word \<Rightarrow> 's \<Rightarrow> 's" and s :: 's
  assume lt: "event < bound"
  then have "event + 1 \<noteq> 0"
    by (metis eq_neg_iff_add_eq_0 word_order.extremum_strict)
  then have "unat (1 + event) = Suc (unat event)"
    by (intro unatSuc) (simp add: add.commute)
  with lt show "((event + 1, bound, body, body event s), (event, bound, body, s))
      \<in> measure (\<lambda>(event, bound, body, s). unat bound - unat event)"
    by (simp add: word_less_nat_alt add.commute)
qed simp

declare for_loop.simps [simp del]

section \<open>Pile-up vertex generators: \<open>multi_vtx_simulator::setup_pu\<close>\<close>

text \<open>
  \<open>setup_pu\<close> uses the C++ \<open><random>\<close> library, which is not part of the sources. The
  model takes it as a parameter: the engine constructor, the constructor of a normal
  distribution from mean and standard deviation, and one draw \<open>dist(engine)\<close>, which
  returns the sample and the new states of the distribution object and of the engine.
\<close>

record ('d, 'g, 'v) random_library =
  default_random_engine :: "u32 \<Rightarrow> 'g"
  normal_distribution :: "rat \<Rightarrow> rat \<Rightarrow> 'd"
  draw :: "'d \<Rightarrow> 'g \<Rightarrow> 'v \<times> 'd \<times> 'g"

text \<open>
  The configuration of one pile-up track generator. Only the fields that \<open>setup_pu\<close>
  sets from variables are kept; the others (\<open>origin_stddev\<close>, \<open>phi_range\<close>,
  \<open>eta_range\<close>, \<open>mom_range\<close>, \<open>randomize_charge\<close>) are set to the same constants for
  every vertex.
\<close>

record 'v generator_configuration =
  cfg_n_tracks :: int
  cfg_origin :: "'v \<times> 'v \<times> 'v"
  cfg_seed :: u64

text \<open>
  The state that the loop of \<open>setup_pu\<close> carries from one vertex to the next: the engine
  and the three distribution objects \<open>distz\<close>, \<open>distx\<close>, \<open>disty\<close>.
\<close>

record ('d, 'g) pu_random_state =
  engine :: 'g
  distz :: 'd
  distx :: 'd
  disty :: 'd

text \<open>
  One iteration of the loop body for vertex \<open>i\<close>: \<open>zpos\<close>, \<open>xpos\<close>, \<open>ypos\<close> are drawn in
  this order from the one engine; the generator's seed is the default seed of a fresh
  configuration (\<open>seed0\<close>, declared in detray) plus \<open>i\<close>.
\<close>

definition pu_vertex ::
  "('d, 'g, 'v) random_library \<Rightarrow> u64 \<Rightarrow> int \<Rightarrow> int \<Rightarrow> ('d, 'g) pu_random_state
    \<Rightarrow> 'v generator_configuration \<times> ('d, 'g) pu_random_state" where
  "pu_vertex L seed0 ntrk_per_vtx i r =
     (case draw L (distz r) (engine r) of (zpos, dz, e1) \<Rightarrow>
      case draw L (distx r) e1 of (xpos, dx, e2) \<Rightarrow>
      case draw L (disty r) e2 of (ypos, dy, e3) \<Rightarrow>
        (\<lparr>cfg_n_tracks = ntrk_per_vtx, cfg_origin = (xpos, ypos, zpos),
          cfg_seed = seed0 + word_of_int i\<rparr>,
         \<lparr>engine = e3, distz = dz, distx = dx, disty = dy\<rparr>))"

function setup_pu_loop ::
  "('d, 'g, 'v) random_library \<Rightarrow> u64 \<Rightarrow> int \<Rightarrow> int \<Rightarrow> int \<Rightarrow> ('d, 'g) pu_random_state
    \<Rightarrow> 'v generator_configuration list \<Rightarrow> 'v generator_configuration list" where
  "setup_pu_loop L seed0 nvtx ntrk_per_vtx i r m_pu_track_generators =
     (if i < nvtx then
        setup_pu_loop L seed0 nvtx ntrk_per_vtx (i + 1)
          (snd (pu_vertex L seed0 ntrk_per_vtx i r))
          (m_pu_track_generators @ [fst (pu_vertex L seed0 ntrk_per_vtx i r)])
      else m_pu_track_generators)"
  by pat_completeness auto
termination
  by (relation "measure (\<lambda>(L, seed0, nvtx, ntrk, i, r, gens). nat (nvtx - i))") auto

declare setup_pu_loop.simps [simp del]

text \<open>
  \<open>setup_pu\<close> clears the vector of generators, reads one value \<open>seed_gen\<close> from
  \<open>std::random_device\<close> and seeds the engine with it. The value read from the device is
  an input of the model.
\<close>

definition setup_pu ::
  "('d, 'g, 'v) random_library \<Rightarrow> u32 \<Rightarrow> u64 \<Rightarrow> int \<Rightarrow> int \<Rightarrow> 'v generator_configuration list" where
  "setup_pu L seed_gen seed0 nvtx ntrk_per_vtx =
     setup_pu_loop L seed0 nvtx ntrk_per_vtx 0
       \<lparr>engine = default_random_engine L seed_gen,
        distz = normal_distribution L 0 54,
        distx = normal_distribution L 0 (4 / 100),
        disty = normal_distribution L 0 (4 / 100)\<rparr> []"

text \<open>
  An instance of the library parameter in which a draw returns the engine's state and
  steps it by one: the simplest engine whose output depends on its seed.
\<close>

definition seed_echo_library :: "(unit, u32, u32) random_library" where
  "seed_echo_library =
     \<lparr>default_random_engine = (\<lambda>s. s),
      normal_distribution = (\<lambda>mean stddev. ()),
      draw = (\<lambda>d g. (g, d, g + 1))\<rparr>"

section \<open>The seed writer: \<open>traccc::io::mywrite\<close> on a seed collection\<close>

text \<open>
  A seed, with the five fields that the writer prints. The types of the links and of the
  scalars are declared outside the sources, and so is the formatting of \<open>operator<<\<close>: the
  model takes the two formatting functions as parameters.
\<close>

record ('l, 'f) seed =
  spB_link :: 'l
  spM_link :: 'l
  spT_link :: 'l
  weight :: 'f
  z_vertex :: 'f

definition seeds_header :: string where
  "seeds_header = ''spB_link,spM_link,spT_link,weight,z_vertex''"

text \<open>The text of one data row, before \<open>std::endl\<close>.\<close>

definition seed_row :: "('l \<Rightarrow> string) \<Rightarrow> ('f \<Rightarrow> string) \<Rightarrow> ('l, 'f) seed \<Rightarrow> string" where
  "seed_row show_link show_scalar sd =
     show_link (spB_link sd) @ '','' @ show_link (spM_link sd) @ '','' @
     show_link (spT_link sd) @ '','' @
     show_scalar (weight sd) @ '','' @ show_scalar (z_vertex sd) @ '',''"

definition endl :: string where
  "endl = [CHR 0x0A]"

definition seeds_file_text ::
  "('l \<Rightarrow> string) \<Rightarrow> ('f \<Rightarrow> string) \<Rightarrow> ('l, 'f) seed list \<Rightarrow> string" where
  "seeds_file_text show_link show_scalar seeds =
     seeds_header @ endl @
     concat (map (\<lambda>sd. seed_row show_link show_scalar sd @ endl) seeds)"

text \<open>
  The file system is a map from file names to contents, with the set of names that can be
  opened for writing. \<open>std::ofstream out_file(filename)\<close> opens with truncation; the writer
  never tests the stream, so when the open fails every \<open><<\<close> is a no-op and nothing is
  reported. \<open>data_directory\<close> and \<open>get_event_filename\<close> are declared in
  \<open>traccc/io/utils.hpp\<close>, outside the sources.
\<close>

record file_system =
  contents :: "string \<rightharpoonup> string"
  writable :: "string \<Rightarrow> bool"

definition seeds_filename ::
  "string \<Rightarrow> (nat \<Rightarrow> string \<Rightarrow> string) \<Rightarrow> nat \<Rightarrow> string \<Rightarrow> string \<Rightarrow> string" where
  "seeds_filename data_directory get_event_filename event directory device =
     data_directory @ directory @ device @ get_event_filename event ''-seeds.txt''"

definition mywrite ::
  "string \<Rightarrow> (nat \<Rightarrow> string \<Rightarrow> string) \<Rightarrow> ('l \<Rightarrow> string) \<Rightarrow> ('f \<Rightarrow> string)
    \<Rightarrow> nat \<Rightarrow> string \<Rightarrow> ('l, 'f) seed list \<Rightarrow> string \<Rightarrow> file_system \<Rightarrow> file_system" where
  "mywrite data_directory get_event_filename show_link show_scalar
      event directory seeds_view device fs =
     (let filename = seeds_filename data_directory get_event_filename event directory device
      in if writable fs filename
         then fs\<lparr>contents := (contents fs)(filename \<mapsto>
                seeds_file_text show_link show_scalar seeds_view)\<rparr>
         else fs)"

section \<open>The full-chain executable: \<open>seq_run\<close>\<close>

subsection \<open>The track-candidate comparison\<close>

text \<open>
  A track-candidate container is a list of (header, items) pairs; the items of one
  candidate are its sequence of measurement associations. \<open>is_same_object\<close> is declared
  in \<open>traccc/performance\<close>, outside the sources, and is a parameter.

  The loops index the containers with \<open>unsigned int\<close> counters. The lengths of the
  containers of one event are below \<open>2 ^ 32\<close>, so the counters are natural numbers here.
  The inner loop stops at the first accelerator candidate that matches (\<open>break\<close>).
\<close>

function match_inner ::
  "('it \<Rightarrow> 'it \<Rightarrow> bool) \<Rightarrow> 'it \<Rightarrow> ('ch \<times> 'it) list \<Rightarrow> nat \<Rightarrow> bool" where
  "match_inner is_same_object items_i track_candidates_cuda j =
     (if j < length track_candidates_cuda then
        (if is_same_object items_i (snd (track_candidates_cuda ! j)) then True
         else match_inner is_same_object items_i track_candidates_cuda (j + 1))
      else False)"
  by pat_completeness auto
termination
  by (relation "measure (\<lambda>(iso, a, cuda, j). length cuda - j)") auto

declare match_inner.simps [simp del]

function match_outer ::
  "('it \<Rightarrow> 'it \<Rightarrow> bool) \<Rightarrow> ('ch \<times> 'it) list \<Rightarrow> ('ch \<times> 'it) list \<Rightarrow> nat \<Rightarrow> nat \<Rightarrow> nat" where
  "match_outer is_same_object track_candidates track_candidates_cuda i n_matches =
     (if i < length track_candidates then
        match_outer is_same_object track_candidates track_candidates_cuda (i + 1)
          (if match_inner is_same_object (snd (track_candidates ! i)) track_candidates_cuda 0
           then n_matches + 1 else n_matches)
      else n_matches)"
  by pat_completeness auto
termination
  by (relation "measure (\<lambda>(iso, cpu, cuda, i, n). length cpu - i)") auto

declare match_outer.simps [simp del]

definition count_matches ::
  "('it \<Rightarrow> 'it \<Rightarrow> bool) \<Rightarrow> ('ch \<times> 'it) list \<Rightarrow> ('ch \<times> 'it) list \<Rightarrow> nat" where
  "count_matches is_same_object track_candidates track_candidates_cuda =
     match_outer is_same_object track_candidates track_candidates_cuda 0 0"

text \<open>
  The matching rate is \<open>float(n_matches) / track_candidates.size()\<close>, a division of two
  non-negative binary32 values. Division by zero does not trap: \<open>0 / 0\<close> is NaN and
  \<open>x / 0\<close> is infinity for \<open>x > 0\<close>. \<open>Finite q\<close> stands for the binary32 value nearest to
  the rational \<open>q\<close>; rounding is not modelled.
\<close>

datatype float_value = NaN | Infinity | Finite rat

definition float_div :: "nat \<Rightarrow> nat \<Rightarrow> float_value" where
  "float_div n d =
     (if d = 0 then (if n = 0 then NaN else Infinity) else Finite (of_nat n / of_nat d))"

definition matching_rate ::
  "('it \<Rightarrow> 'it \<Rightarrow> bool) \<Rightarrow> ('ch \<times> 'it) list \<Rightarrow> ('ch \<times> 'it) list \<Rightarrow> float_value" where
  "matching_rate is_same_object track_candidates track_candidates_cuda =
     float_div (count_matches is_same_object track_candidates track_candidates_cuda)
       (length track_candidates)"

subsection \<open>Collaborators, options and observable actions\<close>

datatype stream = Stream nat

datatype stage = Seeding | Track_params | Finding | Fitting

datatype collection =
  Spacepoints | Modules | Measurements | Seeds | Params | Track_candidates | Track_states

datatype performance_writer =
  Sd_performance_writer | Nsd_performance_writer | Find_performance_writer
  | Fit_performance_writer

text \<open>
  The navigation buffer made by \<open>detray::create_candidates_buffer\<close>: the event whose
  iteration allocated it (one buffer is allocated per iteration) and its size. The scaler
  and \<open>copy.get_size\<close> are \<open>unsigned int\<close> in the headers of traccc and vecmem.
\<close>

record nav_buffer =
  allocated_in :: u64
  nav_size :: u32

datatype file_open =
  Open_track_candidate u64 | Open_tempo_time | Read_tempo_time | Open_processing_time

text \<open>
  The stage algorithms, the readers and the file system are external. Each is a function
  of its inputs; the detector, the field and the stage configurations are fixed for the
  run and not shown. \<open>can_open\<close> tells for each attempt to open a file whether the stream
  is open afterwards. \<open>Open_tempo_time\<close> and \<open>Read_tempo_time\<close> are the two opens of the
  one file \<open>tempo_time.txt\<close>, first for appending and then for reading. Their outcomes
  are related in a file system (a file that does not exist and cannot be created fails
  both, a read-only file fails only the first); the model takes both from the environment.
\<close>

record ('sp, 'md, 'ms, 'sd, 'pr, 'ch, 'ts) collaborators =
  read_spacepoints :: "u64 \<Rightarrow> 'sp list \<times> 'md list"
  read_measurements :: "u64 \<Rightarrow> 'ms list"
  sa_cuda :: "'sp list \<Rightarrow> 'sd list"
  sa :: "'sp list \<Rightarrow> 'sd list"
  tp_cuda :: "'sp list \<Rightarrow> 'sd list \<Rightarrow> 'pr list"
  tp :: "'sp list \<Rightarrow> 'sd list \<Rightarrow> 'pr list"
  device_finding :: "nav_buffer \<Rightarrow> 'ms list \<Rightarrow> 'pr list \<Rightarrow> ('ch \<times> 'ms list) list"
  host_finding :: "'ms list \<Rightarrow> 'pr list \<Rightarrow> ('ch \<times> 'ms list) list"
  device_fitting :: "nav_buffer \<Rightarrow> ('ch \<times> 'ms list) list \<Rightarrow> 'ts list"
  host_fitting :: "('ch \<times> 'ms list) list \<Rightarrow> 'ts list"
  is_same_object :: "'ms list \<Rightarrow> 'ms list \<Rightarrow> bool"
  can_open :: "file_open \<Rightarrow> bool"

record options =
  input_skip :: u64
  input_events :: u64
  compare_with_cpu :: bool
  performance_run :: bool
  output_directory :: string
  navigation_buffer_size_scaler :: u32

text \<open>
  What the run does to the outside, in the order in which the controlling thread does it.
  A \<open>Stage_call\<close> is a call of an accelerator algorithm object, with the stream the object
  was constructed with and the navigation buffer passed to it, if any.
\<close>

datatype 'sd action =
    Performance_initialize performance_writer
  | Read_spacepoints u64
  | Read_measurements u64
  | Async_copy_to_device stream collection
  | Stage_call stage stream "nav_buffer option"
  | Stream_synchronize stream
  | Host_stage_call stage
  | Create_candidates_buffer nav_buffer
  | Async_copy_to_host_wait stream collection
  | Copy_to_host collection
  | Cout_event u64
  | Collection_comparator collection
  | Cout_matching_rate float_value
  | Cout_candidate_sizes nat nat
  | Append_track_candidate float_value nat nat
  | Cerr string
  | Mywrite_seeds u64 string "'sd list"
  | Performance_write performance_writer
  | Performance_finalize performance_writer
  | Cout_report
  | Cout_statistics
  | Append_tempo_time
  | Write_processing_time

record 'sd run_state =
  n_modules :: u64
  n_spacepoints :: u64
  n_seeds :: u64
  n_seeds_cuda :: u64
  n_found_tracks :: u64
  n_found_tracks_cuda :: u64
  n_fitted_tracks :: u64
  n_fitted_tracks_cuda :: u64
  trace :: "'sd action list"

subsection \<open>One iteration of the event loop\<close>

text \<open>
  The collections of one event. The CPU collections are default-constructed (empty) at
  the top of the iteration and assigned only under \<open>compare_with_cpu\<close>.
\<close>

record ('sp, 'md, 'ms, 'sd, 'pr, 'ch, 'ts) event_data =
  spacepoints_per_event :: "'sp list"
  modules_per_event :: "'md list"
  measurements_per_event :: "'ms list"
  seeds_cuda :: "'sd list"
  seeds :: "'sd list"
  params_cuda :: "'pr list"
  params :: "'pr list"
  navigation_buffer :: nav_buffer
  track_candidates_cuda :: "('ch \<times> 'ms list) list"
  track_candidates :: "('ch \<times> 'ms list) list"
  track_states_cuda :: "'ts list"
  track_states :: "'ts list"

definition reconstruct ::
  "('sp, 'md, 'ms, 'sd, 'pr, 'ch, 'ts) collaborators \<Rightarrow> options \<Rightarrow> u64
    \<Rightarrow> ('sp, 'md, 'ms, 'sd, 'pr, 'ch, 'ts) event_data" where
  "reconstruct c opts event =
     (let sp_reader_output = read_spacepoints c event;
          spacepoints = fst sp_reader_output;
          measurements = read_measurements c event;
          cpu = compare_with_cpu opts;
          seeds_cuda_buffer = sa_cuda c spacepoints;
          seeds_host = (if cpu then sa c spacepoints else []);
          params_cuda_buffer = tp_cuda c spacepoints seeds_cuda_buffer;
          params_host = (if cpu then tp c spacepoints seeds_host else []);
          nav = \<lparr>allocated_in = event,
                 nav_size = navigation_buffer_size_scaler opts *
                            of_nat (length seeds_cuda_buffer)\<rparr>;
          track_candidates_cuda_buffer =
            device_finding c nav measurements params_cuda_buffer;
          track_candidates_host =
            (if cpu then host_finding c measurements params_host else []);
          track_states_cuda_buffer = device_fitting c nav track_candidates_cuda_buffer;
          track_states_host = (if cpu then host_fitting c track_candidates_host else [])
      in \<lparr>spacepoints_per_event = spacepoints,
          modules_per_event = snd sp_reader_output,
          measurements_per_event = measurements,
          seeds_cuda = seeds_cuda_buffer,
          seeds = seeds_host,
          params_cuda = params_cuda_buffer,
          params = params_host,
          navigation_buffer = nav,
          track_candidates_cuda = track_candidates_cuda_buffer,
          track_candidates = track_candidates_host,
          track_states_cuda = track_states_cuda_buffer,
          track_states = track_states_host\<rparr>)"

text \<open>The block under the wall-time timer: reading, upload and the stage chain.\<close>

definition stage_actions :: "options \<Rightarrow> stream \<Rightarrow> u64 \<Rightarrow> nav_buffer \<Rightarrow> 'sd action list" where
  "stage_actions opts strm event nav =
     [Read_spacepoints event, Read_measurements event,
      Async_copy_to_device strm Spacepoints,
      Async_copy_to_device strm Modules,
      Async_copy_to_device strm Measurements,
      Stage_call Seeding strm None, Stream_synchronize strm] @
     (if compare_with_cpu opts then [Host_stage_call Seeding] else []) @
     [Stage_call Track_params strm None, Stream_synchronize strm] @
     (if compare_with_cpu opts then [Host_stage_call Track_params] else []) @
     [Create_candidates_buffer nav,
      Stage_call Finding strm (Some nav)] @
     (if compare_with_cpu opts then [Host_stage_call Finding] else []) @
     [Stage_call Fitting strm (Some nav)] @
     (if compare_with_cpu opts then [Host_stage_call Fitting] else [])"

text \<open>The copies of the accelerator results to the host.\<close>

definition download_actions :: "stream \<Rightarrow> 'sd action list" where
  "download_actions strm =
     [Async_copy_to_host_wait strm Seeds, Async_copy_to_host_wait strm Params,
      Copy_to_host Track_candidates, Copy_to_host Track_states]"

text \<open>
  The comparison block, entered only under \<open>compare_with_cpu\<close>. The matching rate is
  printed, then \<open>track_candidate.txt\<close> is opened for appending: when the stream is open
  the line is written and the file closed, otherwise a message goes to \<open>std::cerr\<close>.
\<close>

definition compare_actions ::
  "('sp, 'md, 'ms, 'sd, 'pr, 'ch, 'ts) collaborators \<Rightarrow> options \<Rightarrow> u64
    \<Rightarrow> ('sp, 'md, 'ms, 'sd, 'pr, 'ch, 'ts) event_data \<Rightarrow> 'sd action list" where
  "compare_actions c opts event d =
     (if compare_with_cpu opts then
        (let rate = matching_rate (is_same_object c) (track_candidates d)
                      (track_candidates_cuda d)
         in [Cout_event event,
             Collection_comparator Seeds,
             Collection_comparator Params,
             Cout_matching_rate rate,
             Cout_candidate_sizes (length (track_candidates d))
               (length (track_candidates_cuda d)),
             (if can_open c (Open_track_candidate event)
              then Append_track_candidate rate (length (track_candidates d))
                     (length (track_candidates_cuda d))
              else Cerr ''Unable to open file: '')])
      else [])"

text \<open>
  The writers: the two seed dumps, which are not guarded, and under
  \<open>performance_opts.run\<close> the performance writers, the fitting one once per accelerator
  track.
\<close>

definition writer_actions ::
  "options \<Rightarrow> u64 \<Rightarrow> ('sp, 'md, 'ms, 'sd, 'pr, 'ch, 'ts) event_data \<Rightarrow> 'sd action list" where
  "writer_actions opts event d =
     [Mywrite_seeds event (output_directory opts @ ''cpu/'') (seeds d),
      Mywrite_seeds event (output_directory opts @ ''cuda/'') (seeds_cuda d)] @
     (if performance_run opts then
        [Performance_write Sd_performance_writer,
         Performance_write Find_performance_writer] @
        map (\<lambda>i. Performance_write Fit_performance_writer)
          [0 ..< length (track_states_cuda d)]
      else [])"

definition event_actions ::
  "('sp, 'md, 'ms, 'sd, 'pr, 'ch, 'ts) collaborators \<Rightarrow> options \<Rightarrow> stream \<Rightarrow> u64
    \<Rightarrow> 'sd action list" where
  "event_actions c opts strm event =
     (let d = reconstruct c opts event
      in stage_actions opts strm event (navigation_buffer d) @
         download_actions strm @
         compare_actions c opts event d @
         writer_actions opts event d)"

text \<open>The statistics: each counter grows by the size of its collection.\<close>

definition statistics ::
  "('sp, 'md, 'ms, 'sd, 'pr, 'ch, 'ts) event_data \<Rightarrow> 'sd run_state \<Rightarrow> 'sd run_state" where
  "statistics d s =
     s\<lparr>n_spacepoints := n_spacepoints s + of_nat (length (spacepoints_per_event d)),
       n_modules := n_modules s + of_nat (length (modules_per_event d)),
       n_seeds_cuda := n_seeds_cuda s + of_nat (length (seeds_cuda d)),
       n_seeds := n_seeds s + of_nat (length (seeds d)),
       n_found_tracks_cuda := n_found_tracks_cuda s + of_nat (length (track_candidates_cuda d)),
       n_found_tracks := n_found_tracks s + of_nat (length (track_candidates d)),
       n_fitted_tracks_cuda := n_fitted_tracks_cuda s + of_nat (length (track_states_cuda d)),
       n_fitted_tracks := n_fitted_tracks s + of_nat (length (track_states d))\<rparr>"

definition process_event ::
  "('sp, 'md, 'ms, 'sd, 'pr, 'ch, 'ts) collaborators \<Rightarrow> options \<Rightarrow> stream \<Rightarrow> u64
    \<Rightarrow> 'sd run_state \<Rightarrow> 'sd run_state" where
  "process_event c opts strm event s =
     (statistics (reconstruct c opts event) s)
       \<lparr>trace := trace s @ event_actions c opts strm event\<rparr>"

subsection \<open>The run\<close>

text \<open>
  After the loop: the performance writers are finalized, the statistics printed, the
  timings appended to \<open>tempo_time.txt\<close> (a message on \<open>std::cerr\<close> when it cannot be
  opened), and the numbers copied to \<open>processing_time.txt\<close>. When \<open>tempo_time.txt\<close> cannot
  be read or \<open>processing_time.txt\<close> cannot be opened, \<open>seq_run\<close> prints a message and
  returns 1; otherwise it returns 0.
\<close>

definition finish ::
  "('sp, 'md, 'ms, 'sd, 'pr, 'ch, 'ts) collaborators \<Rightarrow> options \<Rightarrow> 'sd run_state
    \<Rightarrow> int \<times> 'sd run_state" where
  "finish c opts s =
     (let report =
            (if performance_run opts then
               [Performance_finalize Sd_performance_writer,
                Performance_finalize Nsd_performance_writer,
                Performance_finalize Find_performance_writer,
                Performance_finalize Fit_performance_writer,
                Cout_report]
             else []) @ [Cout_statistics];
          tempo =
            (if can_open c Open_tempo_time then [Append_tempo_time]
             else [Cerr ''Unable to open file: ''])
      in if \<not> can_open c Read_tempo_time then
           (1, s\<lparr>trace := trace s @ report @ tempo @ [Cerr ''unable to open input file'']\<rparr>)
         else if \<not> can_open c Open_processing_time then
           (1, s\<lparr>trace := trace s @ report @ tempo @
                  [Cerr ''unable to open processing_time.txt'']\<rparr>)
         else (0, s\<lparr>trace := trace s @ report @ tempo @ [Write_processing_time]\<rparr>))"

definition initial_state :: "options \<Rightarrow> 'sd run_state" where
  "initial_state opts =
     \<lparr>n_modules = 0, n_spacepoints = 0, n_seeds = 0, n_seeds_cuda = 0,
      n_found_tracks = 0, n_found_tracks_cuda = 0,
      n_fitted_tracks = 0, n_fitted_tracks_cuda = 0,
      trace = (if performance_run opts
               then [Performance_initialize Nsd_performance_writer] else [])\<rparr>"

text \<open>
  \<open>seq_run\<close> constructs one stream; the asynchronous copy object and the four accelerator
  algorithm objects are constructed with it.
\<close>

definition the_stream :: stream where
  "the_stream = Stream 0"

definition seq_run ::
  "('sp, 'md, 'ms, 'sd, 'pr, 'ch, 'ts) collaborators \<Rightarrow> options \<Rightarrow> int \<times> 'sd run_state" where
  "seq_run c opts =
     finish c opts
       (for_loop (input_skip opts) (input_events opts + input_skip opts)
          (process_event c opts the_stream) (initial_state opts))"

section \<open>The truth-fitting executable: \<open>main\<close>\<close>

text \<open>
  The part of \<open>main\<close> after the options have been read. The truth candidates of an event
  and the two fitting algorithms are external; \<open>common_opts.events\<close> and
  \<open>common_opts.skip\<close> are read in \<open>unsigned int\<close> arithmetic, the type of the loop
  variable.
\<close>

record ('cd, 'ts) fit_collaborators =
  generate_truth_candidates :: "u32 \<Rightarrow> 'cd list"
  truth_device_fitting :: "nav_buffer \<Rightarrow> 'cd list \<Rightarrow> 'ts list"
  truth_host_fitting :: "'cd list \<Rightarrow> 'ts list"

record common_options =
  common_skip :: u32
  common_events :: u32
  check_performance :: bool
  run_cpu :: bool

datatype fit_action =
    Generate_truth_candidates u32
  | Copy_candidates_to_device
  | Create_fit_candidates_buffer nav_buffer
  | Device_fitting_call nav_buffer
  | Copy_states_to_host
  | Host_fitting_call
  | Fit_cout_event u32
  | Compare_fitting_results
  | Fit_performance_write nat
  | Fit_performance_finalize
  | Fit_cout_statistics

record fit_state =
  fit_n_fitted_tracks :: u64
  fit_n_fitted_tracks_cuda :: u64
  fit_trace :: "fit_action list"

definition fit_event ::
  "('cd, 'ts) fit_collaborators \<Rightarrow> common_options \<Rightarrow> u32 \<Rightarrow> fit_state \<Rightarrow> fit_state" where
  "fit_event c opts event s =
     (let truth_track_candidates = generate_truth_candidates c event;
          nav = \<lparr>allocated_in = ucast event,
                 nav_size = of_nat (length truth_track_candidates)\<rparr>;
          fitted_cuda = truth_device_fitting c nav truth_track_candidates;
          fitted = (if run_cpu opts then truth_host_fitting c truth_track_candidates else [])
      in \<lparr>fit_n_fitted_tracks = fit_n_fitted_tracks s + of_nat (length fitted),
          fit_n_fitted_tracks_cuda = fit_n_fitted_tracks_cuda s + of_nat (length fitted_cuda),
          fit_trace = fit_trace s @
            [Generate_truth_candidates event, Copy_candidates_to_device,
             Create_fit_candidates_buffer nav, Device_fitting_call nav,
             Copy_states_to_host] @
            (if run_cpu opts then [Host_fitting_call] else []) @
            (if run_cpu opts then [Fit_cout_event event, Compare_fitting_results] else []) @
            (if check_performance opts
             then map Fit_performance_write [0 ..< length fitted_cuda] else [])\<rparr>)"

text \<open>
  After the loop the performance writer is finalized and the statistics are printed. The
  function has one \<open>return\<close> statement, \<open>return 1\<close>.
\<close>

definition truth_fitting_main ::
  "('cd, 'ts) fit_collaborators \<Rightarrow> common_options \<Rightarrow> int \<times> fit_state" where
  "truth_fitting_main c opts =
     (let s = for_loop (common_skip opts) (common_events opts + common_skip opts)
                (fit_event c opts)
                \<lparr>fit_n_fitted_tracks = 0, fit_n_fitted_tracks_cuda = 0, fit_trace = []\<rparr>
      in (1, s\<lparr>fit_trace := fit_trace s @
                 (if check_performance opts then [Fit_performance_finalize] else []) @
                 [Fit_cout_statistics]\<rparr>))"

section \<open>Reading the traces\<close>

text \<open>
  The event indices of a run, in the order in which they are processed: an iteration of
  \<open>seq_run\<close> starts by reading the spacepoints of its event, an iteration of the
  truth-fitting \<open>main\<close> by generating the truth candidates of its event.
\<close>

fun read_event :: "'sd action \<Rightarrow> u64 option" where
  "read_event (Read_spacepoints event) = Some event"
| "read_event _ = None"

definition processed_events :: "'sd action list \<Rightarrow> u64 list" where
  "processed_events tr = List.map_filter read_event tr"

fun generated_event :: "fit_action \<Rightarrow> u32 option" where
  "generated_event (Generate_truth_candidates event) = Some event"
| "generated_event _ = None"

definition fit_processed_events :: "fit_action list \<Rightarrow> u32 list" where
  "fit_processed_events tr = List.map_filter generated_event tr"

text \<open>The words from \<open>lo\<close> up to, not including, \<open>hi\<close>, in increasing order.\<close>

definition word_range :: "'a::len word \<Rightarrow> 'a word \<Rightarrow> 'a word list" where
  "word_range lo hi = map of_nat [unat lo ..< unat hi]"

text \<open>
  The actions of the accelerator path: the uploads, the stage calls, the stream
  synchronizations, the creation of the navigation buffer (which reads the size of the seed
  buffer on the host) and the downloads of the results.
\<close>

fun device_action :: "'sd action \<Rightarrow> bool" where
  "device_action (Async_copy_to_device strm coll) = True"
| "device_action (Stage_call st strm nav) = True"
| "device_action (Stream_synchronize strm) = True"
| "device_action (Create_candidates_buffer nav) = True"
| "device_action (Async_copy_to_host_wait strm coll) = True"
| "device_action (Copy_to_host coll) = True"
| "device_action _ = False"

text \<open>The actions that make or receive a navigation buffer.\<close>

fun nav_action :: "'sd action \<Rightarrow> bool" where
  "nav_action (Create_candidates_buffer nav) = True"
| "nav_action (Stage_call st strm (Some nav)) = True"
| "nav_action _ = False"

fun is_synchronize :: "'sd action \<Rightarrow> bool" where
  "is_synchronize (Stream_synchronize strm) = True"
| "is_synchronize _ = False"

text \<open>The actions of the CPU path and of the comparison of the two paths.\<close>

fun cpu_action :: "'sd action \<Rightarrow> bool" where
  "cpu_action (Host_stage_call st) = True"
| "cpu_action (Cout_event event) = True"
| "cpu_action (Collection_comparator coll) = True"
| "cpu_action (Cout_matching_rate r) = True"
| "cpu_action (Cout_candidate_sizes n m) = True"
| "cpu_action (Append_track_candidate r n m) = True"
| "cpu_action _ = False"

text \<open>The actions of \<open>seq_run\<close> after the event loop, as one list.\<close>

definition final_actions ::
  "('sp, 'md, 'ms, 'sd, 'pr, 'ch, 'ts) collaborators \<Rightarrow> options \<Rightarrow> 'sd action list" where
  "final_actions c opts =
     (if performance_run opts then
        [Performance_finalize Sd_performance_writer,
         Performance_finalize Nsd_performance_writer,
         Performance_finalize Find_performance_writer,
         Performance_finalize Fit_performance_writer,
         Cout_report]
      else []) @ [Cout_statistics] @
     (if can_open c Open_tempo_time then [Append_tempo_time]
      else [Cerr ''Unable to open file: '']) @
     (if \<not> can_open c Read_tempo_time then [Cerr ''unable to open input file'']
      else if \<not> can_open c Open_processing_time
      then [Cerr ''unable to open processing_time.txt'']
      else [Write_processing_time])"

section \<open>Sample inputs\<close>

text \<open>
  A small run on which the statements below are tried: every collection holds natural
  numbers, seeding keeps the spacepoints, the track finders make one candidate per
  parameter set, and no file can be opened.
\<close>

definition sample_collaborators :: "(nat, nat, nat, nat, nat, nat, nat) collaborators" where
  "sample_collaborators =
     \<lparr>read_spacepoints = (\<lambda>event. ([1, 2, 3], [7])),
      read_measurements = (\<lambda>event. [4, 5]),
      sa_cuda = (\<lambda>sps. sps),
      sa = (\<lambda>sps. sps),
      tp_cuda = (\<lambda>sps sds. sds),
      tp = (\<lambda>sps sds. sds),
      device_finding = (\<lambda>nav ms ps. map (\<lambda>p. (p, ms)) ps),
      host_finding = (\<lambda>ms ps. map (\<lambda>p. (p, ms)) ps),
      device_fitting = (\<lambda>nav cs. map fst cs),
      host_fitting = (\<lambda>cs. map fst cs),
      is_same_object = (\<lambda>a b. a = b),
      can_open = (\<lambda>f. False)\<rparr>"

definition sample_options :: options where
  "sample_options =
     \<lparr>input_skip = 2, input_events = 2, compare_with_cpu = True, performance_run = False,
      output_directory = ''out/'', navigation_buffer_size_scaler = 20\<rparr>"

definition sample_fit_collaborators :: "(nat, nat) fit_collaborators" where
  "sample_fit_collaborators =
     \<lparr>generate_truth_candidates = (\<lambda>event. [1, 2]),
      truth_device_fitting = (\<lambda>nav cs. cs),
      truth_host_fitting = (\<lambda>cs. cs)\<rparr>"

definition sample_common_options :: common_options where
  "sample_common_options =
     \<lparr>common_skip = 1, common_events = 3, check_performance = True, run_cpu = False\<rparr>"

section \<open>Loops as folds\<close>

lemma word_range_step:
  fixes lo hi :: "'a::len word"
  assumes "lo < hi"
  shows "word_range lo hi = lo # word_range (lo + 1) hi"
proof -
  from assms have "lo + 1 \<noteq> 0"
    by (metis eq_neg_iff_add_eq_0 word_order.extremum_strict)
  then have "unat (1 + lo) = Suc (unat lo)"
    by (intro unatSuc) (simp add: add.commute)
  moreover from assms have "unat lo < unat hi"
    by (simp add: word_less_nat_alt)
  ultimately show ?thesis
    by (simp add: word_range_def upt_conv_Cons add.commute)
qed

lemma word_range_empty:
  fixes lo hi :: "'a::len word"
  assumes "\<not> lo < hi"
  shows "word_range lo hi = []"
  using assms by (simp add: word_range_def word_less_nat_alt)

lemma for_loop_fold: "for_loop lo hi body s = fold body (word_range lo hi) s"
proof (induction lo hi body s rule: for_loop.induct)
  case (1 event bound body s)
  show ?case
  proof (cases "event < bound")
    case True
    with 1 show ?thesis
      by (subst for_loop.simps) (simp add: word_range_step)
  next
    case False
    then show ?thesis
      by (subst for_loop.simps) (simp add: word_range_empty)
  qed
qed

lemma unat_of_nat_word_range:
  fixes hi :: "'a::len word"
  assumes "n < unat hi"
  shows "unat (of_nat n :: 'a word) = n"
proof -
  have "unat hi < (2::nat) ^ LENGTH('a)" by (rule unsigned_less)
  with assms have "n < (2::nat) ^ LENGTH('a)" by (rule less_trans)
  then show ?thesis by (simp add: unat_of_nat)
qed

lemma set_word_range:
  fixes lo hi :: "'a::len word"
  shows "set (word_range lo hi) = {e. lo \<le> e \<and> e < hi}"
proof (intro set_eqI iffI)
  fix e assume "e \<in> set (word_range lo hi)"
  then obtain n where n: "e = of_nat n" "unat lo \<le> n" "n < unat hi"
    by (auto simp: word_range_def)
  then have "unat e = n" by (simp add: unat_of_nat_word_range)
  with n show "e \<in> {e. lo \<le> e \<and> e < hi}"
    by (simp add: word_le_nat_alt word_less_nat_alt)
next
  fix e assume "e \<in> {e. lo \<le> e \<and> e < hi}"
  then have "unat lo \<le> unat e" "unat e < unat hi"
    by (simp_all add: word_le_nat_alt word_less_nat_alt)
  then have "unat e \<in> set [unat lo ..< unat hi]" by simp
  then have "(of_nat (unat e) :: 'a word) \<in> of_nat ` set [unat lo ..< unat hi]"
    by (rule imageI)
  then show "e \<in> set (word_range lo hi)" by (simp add: word_range_def)
qed

lemma distinct_word_range: "distinct (word_range lo hi)"
proof -
  have "inj_on (of_nat :: nat \<Rightarrow> 'a word) (set [unat lo ..< unat hi])"
  proof (rule inj_onI)
    fix x y assume "x \<in> set [unat lo ..< unat hi]" "y \<in> set [unat lo ..< unat hi]"
      and eq: "(of_nat x :: 'a word) = of_nat y"
    then have "x < unat hi" "y < unat hi" by simp_all
    then have "unat (of_nat x :: 'a word) = x" "unat (of_nat y :: 'a word) = y"
      by (simp_all add: unat_of_nat_word_range)
    with eq show "x = y" by metis
  qed
  then show ?thesis by (simp add: word_range_def distinct_map)
qed

lemma sorted_word_range: "sorted (word_range lo hi)"
proof -
  have "sorted (map (of_nat :: nat \<Rightarrow> 'a word) [unat lo ..< unat hi])"
  proof (rule sorted_wrt_map_mono[where ?R = "(\<le>)"])
    show "sorted [unat lo ..< unat hi]" by simp
  next
    fix x y assume "x \<in> set [unat lo ..< unat hi]" "y \<in> set [unat lo ..< unat hi]" "x \<le> y"
    then have "x < unat hi" "y < unat hi" by simp_all
    then have "unat (of_nat x :: 'a word) = x" "unat (of_nat y :: 'a word) = y"
      by (simp_all add: unat_of_nat_word_range)
    with \<open>x \<le> y\<close> show "(of_nat x :: 'a word) \<le> of_nat y"
      by (simp add: word_le_nat_alt)
  qed
  then show ?thesis by (simp add: word_range_def)
qed

lemma trace_fold_process_event:
  "trace (fold (process_event c opts strm) es s) =
     trace s @ concat (map (event_actions c opts strm) es)"
  by (induction es arbitrary: s) (simp_all add: process_event_def statistics_def)


section \<open>The trace of a run\<close>

lemma trace_finish: "trace (snd (finish c opts s)) = trace s @ final_actions c opts"
  by (simp add: finish_def final_actions_def Let_def)

lemma fst_finish:
  "fst (finish c opts s) =
     (if can_open c Read_tempo_time \<and> can_open c Open_processing_time then 0 else 1)"
  by (simp add: finish_def Let_def)

lemma trace_seq_run:
  "trace (snd (seq_run c opts)) =
     trace (initial_state opts :: 'sd run_state) @
     concat (map (event_actions c opts the_stream)
       (word_range (input_skip opts) (input_events opts + input_skip opts))) @
     final_actions c opts"
  for c :: "('sp, 'md, 'ms, 'sd, 'pr, 'ch, 'ts) collaborators"
  by (simp add: seq_run_def trace_finish for_loop_fold trace_fold_process_event)

lemma processed_events_append:
  "processed_events (xs @ ys) = processed_events xs @ processed_events ys"
  by (simp add: processed_events_def List.map_filter_def)

lemma processed_events_event_actions:
  "processed_events (event_actions c opts strm event) = [event]"
  by (simp add: processed_events_def List.map_filter_def event_actions_def Let_def
      stage_actions_def download_actions_def compare_actions_def writer_actions_def
      filter_map comp_def)

lemma processed_events_concat:
  "processed_events (concat (map (event_actions c opts strm) es)) = es"
  by (induction es) (simp_all add: processed_events_append processed_events_event_actions,
      simp add: processed_events_def List.map_filter_def)

lemma processed_events_initial: "processed_events (trace (initial_state opts)) = []"
  by (simp add: processed_events_def List.map_filter_def initial_state_def)

lemma processed_events_final: "processed_events (final_actions c opts) = []"
  by (simp add: processed_events_def List.map_filter_def final_actions_def)

lemma processed_events_seq_run:
  "processed_events (trace (snd (seq_run c opts))) =
     word_range (input_skip opts) (input_events opts + input_skip opts)"
  by (simp add: trace_seq_run processed_events_append processed_events_initial
      processed_events_final processed_events_concat)


section \<open>The trace of the truth-fitting run\<close>

lemma fit_trace_fold:
  "fit_trace (fold (fit_event c opts) es s) =
     fit_trace s @ concat (map (\<lambda>e. fit_trace (fit_event c opts e
        \<lparr>fit_n_fitted_tracks = 0, fit_n_fitted_tracks_cuda = 0, fit_trace = []\<rparr>)) es)"
  by (induction es arbitrary: s) (simp_all add: fit_event_def Let_def)

lemma fit_processed_events_append:
  "fit_processed_events (xs @ ys) = fit_processed_events xs @ fit_processed_events ys"
  by (simp add: fit_processed_events_def List.map_filter_def)

lemma fit_processed_events_fit_event:
  "fit_processed_events (fit_trace (fit_event c opts event
      \<lparr>fit_n_fitted_tracks = 0, fit_n_fitted_tracks_cuda = 0, fit_trace = []\<rparr>)) = [event]"
  by (simp add: fit_processed_events_def List.map_filter_def fit_event_def Let_def
      filter_map comp_def)

lemma fit_processed_events_concat:
  "fit_processed_events (concat (map (\<lambda>e. fit_trace (fit_event c opts e
      \<lparr>fit_n_fitted_tracks = 0, fit_n_fitted_tracks_cuda = 0, fit_trace = []\<rparr>)) es)) = es"
proof (induction es)
  case Nil
  show ?case by (simp add: fit_processed_events_def List.map_filter_def)
next
  case (Cons e es)
  then show ?case
    by (simp add: fit_processed_events_append fit_processed_events_fit_event)
qed

lemma fit_processed_events_main:
  "fit_processed_events (fit_trace (snd (truth_fitting_main c opts))) =
     word_range (common_skip opts) (common_events opts + common_skip opts)"
proof -
  have "fit_processed_events
          ((if check_performance opts then [Fit_performance_finalize] else []) @
           [Fit_cout_statistics]) = []"
    by (simp add: fit_processed_events_def List.map_filter_def)
  then show ?thesis
    by (simp add: truth_fitting_main_def Let_def for_loop_fold fit_trace_fold
        fit_processed_events_append fit_processed_events_concat
        del: append_assoc)
qed

lemma word_range_no_wrap:
  fixes lo n :: "'a::len word"
  assumes "unat lo + unat n < 2 ^ LENGTH('a)"
  shows "word_range lo (n + lo) = map of_nat [unat lo ..< unat lo + unat n]"
proof -
  from assms have "unat (n + lo) = unat lo + unat n"
    by (simp add: unat_add_lem[THEN iffD1] add.commute)
  then show ?thesis by (simp add: word_range_def)
qed

section \<open>Counters and filtered traces of a run\<close>

lemma counters_fold_process_event:
  "n_seeds (fold (process_event c opts strm) es s) =
     n_seeds s + sum_list (map (\<lambda>e. of_nat (length (seeds (reconstruct c opts e)))) es)"
  "n_seeds_cuda (fold (process_event c opts strm) es s) =
     n_seeds_cuda s + sum_list (map (\<lambda>e. of_nat (length (seeds_cuda (reconstruct c opts e)))) es)"
  "n_found_tracks (fold (process_event c opts strm) es s) =
     n_found_tracks s +
     sum_list (map (\<lambda>e. of_nat (length (track_candidates (reconstruct c opts e)))) es)"
  "n_found_tracks_cuda (fold (process_event c opts strm) es s) =
     n_found_tracks_cuda s +
     sum_list (map (\<lambda>e. of_nat (length (track_candidates_cuda (reconstruct c opts e)))) es)"
  "n_fitted_tracks (fold (process_event c opts strm) es s) =
     n_fitted_tracks s +
     sum_list (map (\<lambda>e. of_nat (length (track_states (reconstruct c opts e)))) es)"
  "n_fitted_tracks_cuda (fold (process_event c opts strm) es s) =
     n_fitted_tracks_cuda s +
     sum_list (map (\<lambda>e. of_nat (length (track_states_cuda (reconstruct c opts e)))) es)"
  by (induction es arbitrary: s)
    (simp_all add: process_event_def statistics_def add.assoc)

lemma counters_finish:
  "n_seeds (snd (finish c opts s)) = n_seeds s"
  "n_seeds_cuda (snd (finish c opts s)) = n_seeds_cuda s"
  "n_found_tracks (snd (finish c opts s)) = n_found_tracks s"
  "n_found_tracks_cuda (snd (finish c opts s)) = n_found_tracks_cuda s"
  "n_fitted_tracks (snd (finish c opts s)) = n_fitted_tracks s"
  "n_fitted_tracks_cuda (snd (finish c opts s)) = n_fitted_tracks_cuda s"
  by (simp_all add: finish_def Let_def)

lemma counters_seq_run:
  "n_seeds (snd (seq_run c opts)) =
     sum_list (map (\<lambda>e. of_nat (length (seeds (reconstruct c opts e))))
       (word_range (input_skip opts) (input_events opts + input_skip opts)))"
  "n_seeds_cuda (snd (seq_run c opts)) =
     sum_list (map (\<lambda>e. of_nat (length (seeds_cuda (reconstruct c opts e))))
       (word_range (input_skip opts) (input_events opts + input_skip opts)))"
  "n_found_tracks (snd (seq_run c opts)) =
     sum_list (map (\<lambda>e. of_nat (length (track_candidates (reconstruct c opts e))))
       (word_range (input_skip opts) (input_events opts + input_skip opts)))"
  "n_found_tracks_cuda (snd (seq_run c opts)) =
     sum_list (map (\<lambda>e. of_nat (length (track_candidates_cuda (reconstruct c opts e))))
       (word_range (input_skip opts) (input_events opts + input_skip opts)))"
  "n_fitted_tracks (snd (seq_run c opts)) =
     sum_list (map (\<lambda>e. of_nat (length (track_states (reconstruct c opts e))))
       (word_range (input_skip opts) (input_events opts + input_skip opts)))"
  "n_fitted_tracks_cuda (snd (seq_run c opts)) =
     sum_list (map (\<lambda>e. of_nat (length (track_states_cuda (reconstruct c opts e))))
       (word_range (input_skip opts) (input_events opts + input_skip opts)))"
  by (simp_all add: seq_run_def counters_finish for_loop_fold counters_fold_process_event
      initial_state_def)

lemma reconstruct_without_cpu:
  assumes "\<not> compare_with_cpu opts"
  shows "seeds (reconstruct c opts e) = []"
    and "params (reconstruct c opts e) = []"
    and "track_candidates (reconstruct c opts e) = []"
    and "track_states (reconstruct c opts e) = []"
  using assms by (simp_all add: reconstruct_def Let_def)

lemma filter_trace_seq_run:
  "filter P (trace (snd (seq_run c opts))) =
     filter P (trace (initial_state opts)) @
     concat (map (\<lambda>e. filter P (event_actions c opts the_stream e))
       (word_range (input_skip opts) (input_events opts + input_skip opts))) @
     filter P (final_actions c opts)"
  by (simp add: trace_seq_run filter_concat comp_def)

lemma cpu_action_initial: "filter cpu_action (trace (initial_state opts)) = []"
  by (simp add: initial_state_def)

lemma cpu_action_final: "filter cpu_action (final_actions c opts) = []"
  by (simp add: final_actions_def)

lemma cpu_action_event:
  "\<not> compare_with_cpu opts \<Longrightarrow> filter cpu_action (event_actions c opts strm e) = []"
  by (simp add: event_actions_def Let_def stage_actions_def download_actions_def
      compare_actions_def writer_actions_def)

section \<open>The accelerator actions of one event\<close>

lemma device_actions_event:
  "filter device_action (event_actions c opts strm e) =
     [Async_copy_to_device strm Spacepoints,
      Async_copy_to_device strm Modules,
      Async_copy_to_device strm Measurements,
      Stage_call Seeding strm None, Stream_synchronize strm,
      Stage_call Track_params strm None, Stream_synchronize strm,
      Create_candidates_buffer (navigation_buffer (reconstruct c opts e)),
      Stage_call Finding strm (Some (navigation_buffer (reconstruct c opts e))),
      Stage_call Fitting strm (Some (navigation_buffer (reconstruct c opts e))),
      Async_copy_to_host_wait strm Seeds, Async_copy_to_host_wait strm Params,
      Copy_to_host Track_candidates, Copy_to_host Track_states]"
  by (simp add: event_actions_def Let_def stage_actions_def download_actions_def
      compare_actions_def writer_actions_def)

lemma nav_actions_event:
  "filter nav_action (event_actions c opts strm e) =
     [Create_candidates_buffer (navigation_buffer (reconstruct c opts e)),
      Stage_call Finding strm (Some (navigation_buffer (reconstruct c opts e))),
      Stage_call Fitting strm (Some (navigation_buffer (reconstruct c opts e)))]"
  by (simp add: event_actions_def Let_def stage_actions_def download_actions_def
      compare_actions_def writer_actions_def)

lemma synchronize_actions_event:
  "filter is_synchronize (event_actions c opts strm e) =
     [Stream_synchronize strm, Stream_synchronize strm]"
  by (simp add: event_actions_def Let_def stage_actions_def download_actions_def
      compare_actions_def writer_actions_def)

lemma no_device_action_outside_loop:
  "filter device_action (trace (initial_state opts)) = []"
  "filter device_action (final_actions c opts) = []"
  "filter nav_action (trace (initial_state opts)) = []"
  "filter nav_action (final_actions c opts) = []"
  by (simp_all add: initial_state_def final_actions_def)

lemma reconstruct_navigation_buffer:
  "navigation_buffer (reconstruct c opts e) =
     \<lparr>allocated_in = e,
      nav_size = navigation_buffer_size_scaler opts *
                 of_nat (length (seeds_cuda (reconstruct c opts e)))\<rparr>"
  "track_candidates_cuda (reconstruct c opts e) =
     device_finding c (navigation_buffer (reconstruct c opts e))
       (measurements_per_event (reconstruct c opts e)) (params_cuda (reconstruct c opts e))"
  "track_states_cuda (reconstruct c opts e) =
     device_fitting c (navigation_buffer (reconstruct c opts e))
       (track_candidates_cuda (reconstruct c opts e))"
  "seeds_cuda (reconstruct c opts e) = sa_cuda c (fst (read_spacepoints c e))"
  by (simp_all add: reconstruct_def Let_def)

lemma unat_scaled_size:
  fixes scaler :: u32
  shows "unat (scaler * of_nat n) = (unat scaler * n) mod 2 ^ 32"
  by (simp add: unat_word_ariths unat_of_nat mod_mult_right_eq)

section \<open>The comparison loops and the files of a run\<close>

lemma match_inner_iff:
  "match_inner same a cuda j = (\<exists>k. j \<le> k \<and> k < length cuda \<and> same a (snd (cuda ! k)))"
proof (induction same a cuda j rule: match_inner.induct)
  case (1 same a cuda j)
  show ?case
  proof (cases "j < length cuda")
    case False
    then show ?thesis by (subst match_inner.simps) auto
  next
    case in_range: True
    show ?thesis
    proof (cases "same a (snd (cuda ! j))")
      case True
      with in_range show ?thesis by (subst match_inner.simps) auto
    next
      case False
      with in_range 1 have "match_inner same a cuda j =
          (\<exists>k. j + 1 \<le> k \<and> k < length cuda \<and> same a (snd (cuda ! k)))"
        by (subst match_inner.simps) simp
      also have "\<dots> = (\<exists>k. j \<le> k \<and> k < length cuda \<and> same a (snd (cuda ! k)))"
        using False by (metis Suc_eq_plus1 Suc_leD Suc_leI le_neq_implies_less)
      finally show ?thesis .
    qed
  qed
qed

lemma match_inner_0: "match_inner same a cuda 0 = (\<exists>b\<in>set cuda. same a (snd b))"
  unfolding match_inner_iff by (metis in_set_conv_nth le0)

lemma match_outer_eq:
  "match_outer same cpu cuda i n =
     n + length (filter (\<lambda>a. match_inner same (snd a) cuda 0) (drop i cpu))"
proof (induction same cpu cuda i n rule: match_outer.induct)
  case (1 same cpu cuda i n)
  show ?case
  proof (cases "i < length cpu")
    case False
    then show ?thesis by (subst match_outer.simps) simp
  next
    case True
    then have "drop i cpu = cpu ! i # drop (i + 1) cpu"
      by (simp add: Cons_nth_drop_Suc)
    with True 1 show ?thesis by (subst match_outer.simps) simp
  qed
qed

lemma count_matches_eq:
  "count_matches same cpu cuda = length (filter (\<lambda>a. \<exists>b\<in>set cuda. same (snd a) (snd b)) cpu)"
  by (simp add: count_matches_def match_outer_eq match_inner_0)

lemma reconstruct_is_same_object:
  "reconstruct (c\<lparr>is_same_object := same\<rparr>) opts e = reconstruct c opts e"
  by (simp add: reconstruct_def Let_def)

lemma fst_seq_run:
  "fst (seq_run c opts) =
     (if can_open c Read_tempo_time \<and> can_open c Open_processing_time then 0 else 1)"
  by (simp add: seq_run_def fst_finish)

lemma matching_rate_printed:
  "compare_with_cpu opts \<Longrightarrow>
     Cout_matching_rate (matching_rate (is_same_object c)
       (track_candidates (reconstruct c opts e)) (track_candidates_cuda (reconstruct c opts e)))
     \<in> set (event_actions c opts strm e)"
  by (simp add: event_actions_def Let_def compare_actions_def)

lemma matching_rate_appended:
  "compare_with_cpu opts \<Longrightarrow> can_open c (Open_track_candidate e) \<Longrightarrow>
     Append_track_candidate (matching_rate (is_same_object c)
       (track_candidates (reconstruct c opts e)) (track_candidates_cuda (reconstruct c opts e)))
       (length (track_candidates (reconstruct c opts e)))
       (length (track_candidates_cuda (reconstruct c opts e)))
     \<in> set (event_actions c opts strm e)"
  by (simp add: event_actions_def Let_def compare_actions_def)

lemma event_actions_in_trace:
  assumes "input_skip opts \<le> e" "e < input_events opts + input_skip opts"
  shows "set (event_actions c opts the_stream e) \<subseteq> set (trace (snd (seq_run c opts)))"
proof -
  from assms have "e \<in> set (word_range (input_skip opts) (input_events opts + input_skip opts))"
    by (simp add: set_word_range)
  then show ?thesis by (auto simp: trace_seq_run)
qed

lemma track_candidate_not_opened:
  assumes "compare_with_cpu opts" "\<not> can_open c (Open_track_candidate e)"
  shows "Cerr ''Unable to open file: '' \<in> set (event_actions c opts strm e)"
    and "Append_track_candidate r n m \<notin> set (event_actions c opts strm e)"
  using assms
  by (auto simp: event_actions_def Let_def stage_actions_def download_actions_def
      compare_actions_def writer_actions_def)

lemma track_candidate_not_compared:
  assumes "\<not> compare_with_cpu opts"
  shows "Append_track_candidate r n m \<notin> set (event_actions c opts strm e)"
  using assms
  by (auto simp: event_actions_def Let_def stage_actions_def download_actions_def
      compare_actions_def writer_actions_def)

lemma tempo_time_not_opened:
  assumes "\<not> can_open c Open_tempo_time"
  shows "Cerr ''Unable to open file: '' \<in> set (final_actions c opts)"
    and "Append_tempo_time \<notin> set (final_actions c opts)"
  using assms by (auto simp: final_actions_def)

lemma processing_time_not_opened:
  assumes "can_open c Read_tempo_time" "\<not> can_open c Open_processing_time"
  shows "Cerr ''unable to open processing_time.txt'' \<in> set (final_actions c opts)"
    and "Write_processing_time \<notin> set (final_actions c opts)"
  using assms by (auto simp: final_actions_def)


lemma event_actions_is_same_object_processed:
  "processed_events (trace (snd (seq_run (c\<lparr>is_same_object := same\<rparr>) opts))) =
     processed_events (trace (snd (seq_run c opts)))"
  by (simp add: processed_events_seq_run)

section \<open>The loop of the pile-up setup\<close>

lemma pu_vertex_fst:
  "cfg_n_tracks (fst (pu_vertex L seed0 ntrk i r)) = ntrk"
  "cfg_seed (fst (pu_vertex L seed0 ntrk i r)) = seed0 + word_of_int i"
  by (simp_all add: pu_vertex_def split: prod.splits)

lemma setup_pu_loop_seeds:
  "map (\<lambda>g. (cfg_n_tracks g, cfg_seed g)) (setup_pu_loop L seed0 nvtx ntrk i r gens) =
     map (\<lambda>g. (cfg_n_tracks g, cfg_seed g)) gens @
     map (\<lambda>k. (ntrk, seed0 + word_of_int k)) [i..nvtx - 1]"
proof (induction L seed0 nvtx ntrk i r gens rule: setup_pu_loop.induct)
  case (1 L seed0 nvtx ntrk i r gens)
  show ?case
  proof (cases "i < nvtx")
    case True
    then have "[i..nvtx - 1] = i # [i + 1..nvtx - 1]"
      by (simp add: upto_rec1)
    with True 1 show ?thesis
      by (subst setup_pu_loop.simps) (simp add: pu_vertex_fst)
  next
    case False
    then show ?thesis by (subst setup_pu_loop.simps) simp
  qed
qed

section \<open>The event loops\<close>

text \<open>
  Claim C8. With skip value \<open>s\<close> and event count \<open>n\<close>, both event loops process exactly
  the event indices of the half-open range from \<open>s\<close> to \<open>s + n\<close>, each index once and in
  increasing order, and no other index. The bound \<open>s + n\<close> is the sum that the code
  computes, in \<open>std::size_t\<close> in \<open>seq_run\<close> and in \<open>unsigned int\<close> in the truth-fitting
  \<open>main\<close>; when the sum does not wrap it is the sum of the natural numbers, and when it
  wraps the range is empty.
\<close>

theorem event_loops_process_the_range:
  "processed_events (trace (snd (seq_run c opts))) =
     word_range (input_skip opts) (input_events opts + input_skip opts)
   \<and> set (processed_events (trace (snd (seq_run c opts)))) =
     {e. input_skip opts \<le> e \<and> e < input_events opts + input_skip opts}
   \<and> distinct (processed_events (trace (snd (seq_run c opts))))
   \<and> sorted (processed_events (trace (snd (seq_run c opts))))
   \<and> (unat (input_skip opts) + unat (input_events opts) < 2 ^ 64 \<longrightarrow>
        processed_events (trace (snd (seq_run c opts))) =
          map of_nat [unat (input_skip opts) ..<
                      unat (input_skip opts) + unat (input_events opts)])
   \<and> fit_processed_events (fit_trace (snd (truth_fitting_main fc fopts))) =
     word_range (common_skip fopts) (common_events fopts + common_skip fopts)
   \<and> set (fit_processed_events (fit_trace (snd (truth_fitting_main fc fopts)))) =
     {e. common_skip fopts \<le> e \<and> e < common_events fopts + common_skip fopts}
   \<and> distinct (fit_processed_events (fit_trace (snd (truth_fitting_main fc fopts))))
   \<and> sorted (fit_processed_events (fit_trace (snd (truth_fitting_main fc fopts))))
   \<and> (unat (common_skip fopts) + unat (common_events fopts) < 2 ^ 32 \<longrightarrow>
        fit_processed_events (fit_trace (snd (truth_fitting_main fc fopts))) =
          map of_nat [unat (common_skip fopts) ..<
                      unat (common_skip fopts) + unat (common_events fopts)])"
  using word_range_no_wrap[of "input_skip opts" "input_events opts"]
    word_range_no_wrap[of "common_skip fopts" "common_events fopts"]
  by (simp add: processed_events_seq_run fit_processed_events_main set_word_range
      distinct_word_range sorted_word_range)

theorem event_loops_process_the_range_witness:
  "unat (input_skip sample_options) + unat (input_events sample_options) < 2 ^ 64
   \<and> processed_events (trace (snd (seq_run sample_collaborators sample_options))) = [2, 3]
   \<and> unat (common_skip sample_common_options) + unat (common_events sample_common_options)
       < 2 ^ 32
   \<and> fit_processed_events
       (fit_trace (snd (truth_fitting_main sample_fit_collaborators sample_common_options))) =
       [1, 2, 3]"
proof -
  have h1: "unat (input_skip sample_options) + unat (input_events sample_options) < 2 ^ 64"
    by (simp add: sample_options_def)
  have h2: "unat (common_skip sample_common_options) +
      unat (common_events sample_common_options) < 2 ^ 32"
    by (simp add: sample_common_options_def)
  note range = event_loops_process_the_range[of sample_collaborators sample_options
      sample_fit_collaborators sample_common_options]
  from range h1 have "processed_events (trace (snd (seq_run sample_collaborators sample_options))) =
      map of_nat [unat (input_skip sample_options) ..<
        unat (input_skip sample_options) + unat (input_events sample_options)]"
    by blast
  then have r1: "processed_events (trace (snd (seq_run sample_collaborators sample_options))) =
      [2, 3]"
    by (simp add: sample_options_def upt_rec)
  from range h2 have "fit_processed_events
       (fit_trace (snd (truth_fitting_main sample_fit_collaborators sample_common_options))) =
      map of_nat [unat (common_skip sample_common_options) ..<
        unat (common_skip sample_common_options) + unat (common_events sample_common_options)]"
    by blast
  then have r2: "fit_processed_events
       (fit_trace (snd (truth_fitting_main sample_fit_collaborators sample_common_options))) =
      [1, 2, 3]"
    by (simp add: sample_common_options_def upt_rec)
  from h1 r1 h2 r2 show ?thesis by blast
qed


section \<open>The return value of the truth-fitting executable\<close>

text \<open>
  Claim C10. The \<open>main\<close> function of the truth-fitting executable returns 1 on every
  run, whatever the options, the events and the results of the fits are.
\<close>

theorem truth_fitting_main_returns_1: "fst (truth_fitting_main c opts) = 1"
  by (simp add: truth_fitting_main_def Let_def)



section \<open>Running without the CPU cross-check\<close>

text \<open>
  Claim C4. In a run with \<open>compare_with_cpu\<close> false the CPU-side counters \<open>n_seeds\<close>,
  \<open>n_found_tracks\<close> and \<open>n_fitted_tracks\<close> are zero at the end, no CPU stage is called
  and no comparison is made or reported, and the accelerator-side counters hold the sums
  of the sizes of the accelerator results over the events of the run.
\<close>

theorem cpu_path_disabled:
  assumes "\<not> compare_with_cpu opts"
  shows "n_seeds (snd (seq_run c opts)) = 0
    \<and> n_found_tracks (snd (seq_run c opts)) = 0
    \<and> n_fitted_tracks (snd (seq_run c opts)) = 0
    \<and> filter cpu_action (trace (snd (seq_run c opts))) = []
    \<and> n_seeds_cuda (snd (seq_run c opts)) =
        sum_list (map (\<lambda>e. of_nat (length (seeds_cuda (reconstruct c opts e))))
          (word_range (input_skip opts) (input_events opts + input_skip opts)))
    \<and> n_found_tracks_cuda (snd (seq_run c opts)) =
        sum_list (map (\<lambda>e. of_nat (length (track_candidates_cuda (reconstruct c opts e))))
          (word_range (input_skip opts) (input_events opts + input_skip opts)))
    \<and> n_fitted_tracks_cuda (snd (seq_run c opts)) =
        sum_list (map (\<lambda>e. of_nat (length (track_states_cuda (reconstruct c opts e))))
          (word_range (input_skip opts) (input_events opts + input_skip opts)))"
proof -
  have "n_seeds (snd (seq_run c opts)) = 0"
    "n_found_tracks (snd (seq_run c opts)) = 0"
    "n_fitted_tracks (snd (seq_run c opts)) = 0"
    using assms by (simp_all add: counters_seq_run reconstruct_without_cpu)
  moreover have "filter cpu_action (trace (snd (seq_run c opts))) = []"
    using assms
    by (simp add: filter_trace_seq_run cpu_action_initial cpu_action_final cpu_action_event)
  ultimately show ?thesis
    by (simp add: counters_seq_run)
qed

theorem cpu_path_disabled_witness:
  "\<not> compare_with_cpu (sample_options\<lparr>compare_with_cpu := False\<rparr>)
   \<and> n_seeds (snd (seq_run sample_collaborators
        (sample_options\<lparr>compare_with_cpu := False\<rparr>))) = 0
   \<and> n_found_tracks (snd (seq_run sample_collaborators
        (sample_options\<lparr>compare_with_cpu := False\<rparr>))) = 0
   \<and> n_fitted_tracks (snd (seq_run sample_collaborators
        (sample_options\<lparr>compare_with_cpu := False\<rparr>))) = 0
   \<and> filter cpu_action (trace (snd (seq_run sample_collaborators
        (sample_options\<lparr>compare_with_cpu := False\<rparr>)))) = []
   \<and> n_seeds_cuda (snd (seq_run sample_collaborators
        (sample_options\<lparr>compare_with_cpu := False\<rparr>))) = 6"
proof -
  have h: "\<not> compare_with_cpu (sample_options\<lparr>compare_with_cpu := False\<rparr>)"
    by simp
  have r: "word_range (2 :: u64) 4 = [2, 3]"
    by (simp add: word_range_def upt_rec)
  have "sum_list (map (\<lambda>e. of_nat (length (seeds_cuda
            (reconstruct sample_collaborators (sample_options\<lparr>compare_with_cpu := False\<rparr>) e))))
          (word_range (input_skip (sample_options\<lparr>compare_with_cpu := False\<rparr>))
            (input_events (sample_options\<lparr>compare_with_cpu := False\<rparr>) +
             input_skip (sample_options\<lparr>compare_with_cpu := False\<rparr>)))) = (6 :: u64)"
    by (simp add: sample_options_def sample_collaborators_def reconstruct_def Let_def r)
  with cpu_path_disabled[OF h, of sample_collaborators] h show ?thesis
    by simp
qed



section \<open>The navigation buffer\<close>

text \<open>
  Claim C7. In every event the navigation buffer is created with the size
  \<open>navigation_buffer_size_scaler\<close> times the number of accelerator seeds of that event (the
  product of two \<open>unsigned int\<close> values), and this one buffer, allocated in that event, is
  the buffer passed to the accelerator track finding and to the accelerator track fitting
  of the event; the two results are computed with it.
\<close>

theorem navigation_buffer_sized_and_shared:
  "nav_size (navigation_buffer (reconstruct c opts e)) =
     navigation_buffer_size_scaler opts * of_nat (length (seeds_cuda (reconstruct c opts e)))
   \<and> unat (nav_size (navigation_buffer (reconstruct c opts e))) =
     (unat (navigation_buffer_size_scaler opts) * length (seeds_cuda (reconstruct c opts e)))
       mod 2 ^ 32
   \<and> seeds_cuda (reconstruct c opts e) = sa_cuda c (fst (read_spacepoints c e))
   \<and> allocated_in (navigation_buffer (reconstruct c opts e)) = e
   \<and> filter nav_action (event_actions c opts strm e) =
     [Create_candidates_buffer (navigation_buffer (reconstruct c opts e)),
      Stage_call Finding strm (Some (navigation_buffer (reconstruct c opts e))),
      Stage_call Fitting strm (Some (navigation_buffer (reconstruct c opts e)))]
   \<and> track_candidates_cuda (reconstruct c opts e) =
     device_finding c (navigation_buffer (reconstruct c opts e))
       (measurements_per_event (reconstruct c opts e)) (params_cuda (reconstruct c opts e))
   \<and> track_states_cuda (reconstruct c opts e) =
     device_fitting c (navigation_buffer (reconstruct c opts e))
       (track_candidates_cuda (reconstruct c opts e))
   \<and> filter nav_action (trace (snd (seq_run c opts))) =
     concat (map (\<lambda>e.
         [Create_candidates_buffer (navigation_buffer (reconstruct c opts e)),
          Stage_call Finding the_stream (Some (navigation_buffer (reconstruct c opts e))),
          Stage_call Fitting the_stream (Some (navigation_buffer (reconstruct c opts e)))])
       (word_range (input_skip opts) (input_events opts + input_skip opts)))"
proof -
  have "nav_size (navigation_buffer (reconstruct c opts e)) =
     navigation_buffer_size_scaler opts * of_nat (length (seeds_cuda (reconstruct c opts e)))"
    by (simp add: reconstruct_navigation_buffer(1))
  moreover from this
  have "unat (nav_size (navigation_buffer (reconstruct c opts e))) =
     (unat (navigation_buffer_size_scaler opts) * length (seeds_cuda (reconstruct c opts e)))
       mod 2 ^ 32"
    by (simp only: unat_scaled_size)
  moreover have "allocated_in (navigation_buffer (reconstruct c opts e)) = e"
    by (simp add: reconstruct_navigation_buffer(1))
  moreover have "filter nav_action (trace (snd (seq_run c opts))) =
     concat (map (\<lambda>e.
         [Create_candidates_buffer (navigation_buffer (reconstruct c opts e)),
          Stage_call Finding the_stream (Some (navigation_buffer (reconstruct c opts e))),
          Stage_call Fitting the_stream (Some (navigation_buffer (reconstruct c opts e)))])
       (word_range (input_skip opts) (input_events opts + input_skip opts)))"
    by (simp add: filter_trace_seq_run no_device_action_outside_loop nav_actions_event)
  ultimately show ?thesis
    using reconstruct_navigation_buffer(2,3,4)[of c opts e] nav_actions_event[of c opts strm e]
    by simp
qed

section \<open>The accelerator stage chain\<close>

text \<open>
  Claim C3, as stated: all accelerator stage calls of an event are issued on one stream
  in order, and the chain is awaited by exactly one stream synchronize. The second part
  fails: every event has two stream synchronizations.
\<close>

theorem one_synchronize_counterexample:
  "length (filter is_synchronize
     (event_actions sample_collaborators sample_options the_stream 2)) \<noteq> 1"
  by (simp add: synchronize_actions_event)


text \<open>
  Claim C3, amended. In every event the uploads and the four accelerator stage calls
  (seeding, parameter estimation, finding, fitting) are issued in this order on the one
  stream of the run. The stream is synchronized twice, right after the seeding call and
  right after the parameter-estimation call; no synchronization follows finding or
  fitting. The host reads accelerator results only after these two synchronizations: the
  size of the seed buffer when the navigation buffer is created, and all four results
  through blocking copies after the chain.
\<close>

theorem accelerator_chain_of_an_event:
  "filter device_action (event_actions c opts strm e) =
     [Async_copy_to_device strm Spacepoints,
      Async_copy_to_device strm Modules,
      Async_copy_to_device strm Measurements,
      Stage_call Seeding strm None, Stream_synchronize strm,
      Stage_call Track_params strm None, Stream_synchronize strm,
      Create_candidates_buffer (navigation_buffer (reconstruct c opts e)),
      Stage_call Finding strm (Some (navigation_buffer (reconstruct c opts e))),
      Stage_call Fitting strm (Some (navigation_buffer (reconstruct c opts e))),
      Async_copy_to_host_wait strm Seeds, Async_copy_to_host_wait strm Params,
      Copy_to_host Track_candidates, Copy_to_host Track_states]
   \<and> filter is_synchronize (event_actions c opts strm e) =
     [Stream_synchronize strm, Stream_synchronize strm]
   \<and> filter device_action (trace (snd (seq_run c opts))) =
     concat (map (\<lambda>e. filter device_action (event_actions c opts the_stream e))
       (word_range (input_skip opts) (input_events opts + input_skip opts)))"
  by (simp add: device_actions_event synchronize_actions_event filter_trace_seq_run
      no_device_action_outside_loop)



section \<open>The track-candidate comparison of an event\<close>

text \<open>
  Claim C5. The comparison takes each CPU candidate in turn and looks for an accelerator
  candidate whose measurement sequence \<open>is_same_object\<close> accepts; a CPU candidate counts
  once, at its first hit, so the number of matches is the number of CPU candidates that
  have a counterpart and never exceeds the number of CPU candidates. The matching rate is
  the quotient of that number by the number of CPU candidates, as \<open>float\<close> division
  computes it, and it is printed. The outcome of the comparison changes neither the
  return value of the run nor the events that are processed.
\<close>

theorem track_candidate_matching:
  "count_matches same cpu cuda =
     length (filter (\<lambda>a. \<exists>b\<in>set cuda. same (snd a) (snd b)) cpu)
   \<and> count_matches same cpu cuda \<le> length cpu
   \<and> matching_rate same cpu cuda = float_div (count_matches same cpu cuda) (length cpu)
   \<and> (cpu \<noteq> [] \<longrightarrow>
        matching_rate same cpu cuda =
          Finite (of_nat (count_matches same cpu cuda) / of_nat (length cpu)))
   \<and> (compare_with_cpu opts \<longrightarrow>
        Cout_matching_rate (matching_rate (is_same_object c)
          (track_candidates (reconstruct c opts e))
          (track_candidates_cuda (reconstruct c opts e)))
        \<in> set (event_actions c opts strm e))
   \<and> fst (seq_run (c\<lparr>is_same_object := same'\<rparr>) opts) = fst (seq_run c opts)
   \<and> processed_events (trace (snd (seq_run (c\<lparr>is_same_object := same'\<rparr>) opts))) =
       processed_events (trace (snd (seq_run c opts)))"
proof -
  have count: "count_matches same cpu cuda =
      length (filter (\<lambda>a. \<exists>b\<in>set cuda. same (snd a) (snd b)) cpu)"
    by (rule count_matches_eq)
  have bound: "count_matches same cpu cuda \<le> length cpu"
    by (simp add: count_matches_eq)
  have rate: "matching_rate same cpu cuda =
      float_div (count_matches same cpu cuda) (length cpu)"
    by (simp add: matching_rate_def)
  have finite: "cpu \<noteq> [] \<longrightarrow>
      matching_rate same cpu cuda =
        Finite (of_nat (count_matches same cpu cuda) / of_nat (length cpu))"
    by (simp add: matching_rate_def float_div_def)
  have status: "fst (seq_run (c\<lparr>is_same_object := same'\<rparr>) opts) = fst (seq_run c opts)"
    by (simp add: fst_seq_run)
  have printed: "compare_with_cpu opts \<longrightarrow>
      Cout_matching_rate (matching_rate (is_same_object c)
        (track_candidates (reconstruct c opts e))
        (track_candidates_cuda (reconstruct c opts e)))
      \<in> set (event_actions c opts strm e)"
    by (simp add: matching_rate_printed)
  have events: "processed_events (trace (snd (seq_run (c\<lparr>is_same_object := same'\<rparr>) opts))) =
      processed_events (trace (snd (seq_run c opts)))"
    by (rule event_actions_is_same_object_processed)
  from count bound rate finite printed status events show ?thesis
    by blast
qed

theorem track_candidate_matching_witness:
  "[(0 :: nat, [1, 2 :: nat]), (1, [3]), (2, [4])] \<noteq> []
   \<and> count_matches (=) [(0 :: nat, [1, 2 :: nat]), (1, [3]), (2, [4])]
        [(5 :: nat, [3]), (6, [3]), (7, [1, 2])] = 2
   \<and> matching_rate (=) [(0 :: nat, [1, 2 :: nat]), (1, [3]), (2, [4])]
        [(5 :: nat, [3]), (6, [3]), (7, [1, 2])] = Finite (2 / 3)
   \<and> compare_with_cpu sample_options"
proof -
  let ?cpu = "[(0 :: nat, [1, 2 :: nat]), (1, [3]), (2, [4])]"
  let ?cuda = "[(5 :: nat, [3 :: nat]), (6, [3]), (7, [1, 2])]"
  note t = track_candidate_matching[where same = "(=)" and cpu = ?cpu and cuda = ?cuda
      and opts = sample_options and c = sample_collaborators and e = 2
      and strm = the_stream and same' = "(=)"]
  have ne: "?cpu \<noteq> []" by simp
  from t have "count_matches (=) ?cpu ?cuda =
      length (filter (\<lambda>a. \<exists>b\<in>set ?cuda. snd a = snd b) ?cpu)"
    by blast
  also have "\<dots> = 2" by simp
  finally have n: "count_matches (=) ?cpu ?cuda = 2" .
  from t ne have "matching_rate (=) ?cpu ?cuda =
      Finite (of_nat (count_matches (=) ?cpu ?cuda) / of_nat (length ?cpu))"
    by blast
  with n have r: "matching_rate (=) ?cpu ?cuda = Finite (2 / 3)" by simp
  have "compare_with_cpu sample_options" by (simp add: sample_options_def)
  with ne n r show ?thesis by blast
qed

text \<open>
  Claim C9. When the CPU cross-check is enabled and the CPU path finds no track candidate
  in an event, the matching rate of that event is the unguarded quotient \<open>0 / 0\<close>, which
  is NaN; this value is printed and, when \<open>track_candidate.txt\<close> can be opened, appended
  to that file, for every event of the run.
\<close>

theorem matching_rate_of_no_cpu_candidates:
  assumes "compare_with_cpu opts" and "track_candidates (reconstruct c opts e) = []"
  shows "matching_rate (is_same_object c) (track_candidates (reconstruct c opts e))
           (track_candidates_cuda (reconstruct c opts e)) = NaN
    \<and> Cout_matching_rate NaN \<in> set (event_actions c opts strm e)
    \<and> (can_open c (Open_track_candidate e) \<longrightarrow>
         Append_track_candidate NaN 0 (length (track_candidates_cuda (reconstruct c opts e)))
         \<in> set (event_actions c opts strm e))
    \<and> (input_skip opts \<le> e \<and> e < input_events opts + input_skip opts \<longrightarrow>
         Cout_matching_rate NaN \<in> set (trace (snd (seq_run c opts))) \<and>
         (can_open c (Open_track_candidate e) \<longrightarrow>
            Append_track_candidate NaN 0
              (length (track_candidates_cuda (reconstruct c opts e)))
            \<in> set (trace (snd (seq_run c opts)))))"
proof -
  have rate: "matching_rate (is_same_object c) (track_candidates (reconstruct c opts e))
      (track_candidates_cuda (reconstruct c opts e)) = NaN"
    by (simp add: assms(2) matching_rate_def count_matches_eq float_div_def)
  have rate0: "matching_rate (is_same_object c) [] cuda = NaN" for cuda
    by (simp add: matching_rate_def count_matches_eq float_div_def)
  have printed: "Cout_matching_rate NaN \<in> set (event_actions c opts strm e)" for strm
    using matching_rate_printed[OF assms(1), where c = c and e = e and strm = strm]
    by (simp add: assms(2) rate0)
  have appended: "Append_track_candidate NaN 0
      (length (track_candidates_cuda (reconstruct c opts e)))
      \<in> set (event_actions c opts strm e)"
    if "can_open c (Open_track_candidate e)" for strm
    using matching_rate_appended[OF assms(1) that, where strm = strm]
    by (simp add: assms(2) rate0)
  show ?thesis
    using rate printed appended event_actions_in_trace[where opts = opts and e = e and c = c]
    by blast
qed

theorem matching_rate_of_no_cpu_candidates_witness:
  "compare_with_cpu sample_options
   \<and> track_candidates (reconstruct
        (sample_collaborators\<lparr>host_finding := (\<lambda>ms ps. []), can_open := (\<lambda>f. True)\<rparr>)
        sample_options 2) = []
   \<and> can_open (sample_collaborators\<lparr>host_finding := (\<lambda>ms ps. []), can_open := (\<lambda>f. True)\<rparr>)
        (Open_track_candidate 2)
   \<and> input_skip sample_options \<le> 2 \<and> 2 < input_events sample_options + input_skip sample_options
   \<and> Cout_matching_rate NaN \<in> set (trace (snd (seq_run
        (sample_collaborators\<lparr>host_finding := (\<lambda>ms ps. []), can_open := (\<lambda>f. True)\<rparr>)
        sample_options)))
   \<and> Append_track_candidate NaN 0 3 \<in> set (trace (snd (seq_run
        (sample_collaborators\<lparr>host_finding := (\<lambda>ms ps. []), can_open := (\<lambda>f. True)\<rparr>)
        sample_options)))"
proof -
  let ?c = "sample_collaborators\<lparr>host_finding := (\<lambda>ms ps. []), can_open := (\<lambda>f. True)\<rparr>"
  have h1: "compare_with_cpu sample_options" by (simp add: sample_options_def)
  have h2: "track_candidates (reconstruct ?c sample_options 2) = []"
    by (simp add: reconstruct_def Let_def sample_options_def)
  have h3: "can_open ?c (Open_track_candidate 2)" by simp
  have h4: "input_skip sample_options \<le> 2 \<and>
      2 < input_events sample_options + input_skip sample_options"
    by (simp add: sample_options_def)
  have n: "length (track_candidates_cuda (reconstruct ?c sample_options 2)) = 3"
    by (simp add: reconstruct_def Let_def sample_options_def sample_collaborators_def)
  from matching_rate_of_no_cpu_candidates[OF h1 h2, where strm = the_stream] h3 h4
  have "Cout_matching_rate NaN \<in> set (trace (snd (seq_run ?c sample_options)))"
    and "Append_track_candidate NaN 0
           (length (track_candidates_cuda (reconstruct ?c sample_options 2)))
         \<in> set (trace (snd (seq_run ?c sample_options)))"
    by blast+
  with h1 h2 h3 h4 n show ?thesis by simp
qed

section \<open>Output files that cannot be opened\<close>

text \<open>
  Claim C2, as stated: an output file that cannot be opened is reported, the write is
  skipped, the run goes on and its exit status is not changed. The last part fails. With
  every other file open, the run returns 0 when \<open>processing_time.txt\<close> can be opened and 1
  when it cannot. And \<open>tempo_time.txt\<close> is opened for appending and then, under the same
  name, for reading: when it can neither be appended to nor read (it does not exist and
  cannot be created), the run returns 1 as well.
\<close>

theorem processing_time_open_failure_counterexample:
  "fst (seq_run (sample_collaborators\<lparr>can_open := (\<lambda>f. True)\<rparr>) sample_options) = 0
   \<and> fst (seq_run (sample_collaborators\<lparr>can_open := (\<lambda>f. f \<noteq> Open_processing_time)\<rparr>)
        sample_options) = 1
   \<and> fst (seq_run (sample_collaborators
          \<lparr>can_open := (\<lambda>f. f \<noteq> Open_tempo_time \<and> f \<noteq> Read_tempo_time)\<rparr>)
        sample_options) = 1"
  by (simp add: fst_seq_run)

text \<open>
  Claim C2, amended. Whatever files can be opened, every event of the range is processed.
  When \<open>track_candidate.txt\<close> cannot be opened in an event, a message goes to \<open>std::cerr\<close>,
  that line is not written, and neither the events processed nor the return value depend
  on it. When \<open>tempo_time.txt\<close> cannot be opened for appending, a message goes to
  \<open>std::cerr\<close>, the timings are not appended and \<open>seq_run\<close> goes on, without returning, to
  open the same file for reading. The return value is decided there: \<open>seq_run\<close> returns 0
  exactly when \<open>tempo_time.txt\<close> can be opened for reading and \<open>processing_time.txt\<close> can
  be opened for writing; when either open fails, a message goes to \<open>std::cerr\<close>, the numbers
  are not written and \<open>seq_run\<close> returns 1. So a failed open of \<open>tempo_time.txt\<close> that also
  makes the file unreadable, and every failed open of \<open>processing_time.txt\<close>, changes the
  return value. The seed writer does not test its stream: when its file cannot be opened,
  nothing is written and the file system is left as it was.
\<close>

theorem output_open_failures:
  "processed_events (trace (snd (seq_run c opts))) =
     word_range (input_skip opts) (input_events opts + input_skip opts)
   \<and> fst (seq_run c opts) =
     (if can_open c Read_tempo_time \<and> can_open c Open_processing_time then 0 else 1)
   \<and> trace (snd (seq_run c opts)) =
     trace (initial_state opts) @
     concat (map (event_actions c opts the_stream)
       (word_range (input_skip opts) (input_events opts + input_skip opts))) @
     final_actions c opts
   \<and> (compare_with_cpu opts \<and> \<not> can_open c (Open_track_candidate e) \<longrightarrow>
        Cerr ''Unable to open file: '' \<in> set (event_actions c opts strm e) \<and>
        (\<forall>r n m. Append_track_candidate r n m \<notin> set (event_actions c opts strm e)))
   \<and> fst (seq_run (c\<lparr>can_open := (can_open c)(Open_track_candidate e := b)\<rparr>) opts) =
       fst (seq_run c opts)
   \<and> processed_events (trace (snd (seq_run
         (c\<lparr>can_open := (can_open c)(Open_track_candidate e := b)\<rparr>) opts))) =
       processed_events (trace (snd (seq_run c opts)))
   \<and> (\<not> can_open c Open_tempo_time \<longrightarrow>
        Cerr ''Unable to open file: '' \<in> set (final_actions c opts) \<and>
        Append_tempo_time \<notin> set (final_actions c opts))
   \<and> (\<not> can_open c Read_tempo_time \<longrightarrow>
        Cerr ''unable to open input file'' \<in> set (final_actions c opts) \<and>
        Write_processing_time \<notin> set (final_actions c opts) \<and>
        fst (seq_run c opts) = 1)
   \<and> (can_open c Read_tempo_time \<and> \<not> can_open c Open_processing_time \<longrightarrow>
        Cerr ''unable to open processing_time.txt'' \<in> set (final_actions c opts) \<and>
        Write_processing_time \<notin> set (final_actions c opts) \<and>
        fst (seq_run c opts) = 1)
   \<and> (\<not> writable fs (seeds_filename data_directory get_event_filename ev directory device) \<longrightarrow>
        mywrite data_directory get_event_filename show_link show_scalar ev directory
          seeds_view device fs = fs)"
proof -
  have events: "processed_events (trace (snd (seq_run c opts))) =
      word_range (input_skip opts) (input_events opts + input_skip opts)"
    by (rule processed_events_seq_run)
  have status: "fst (seq_run c opts) =
      (if can_open c Read_tempo_time \<and> can_open c Open_processing_time then 0 else 1)"
    by (rule fst_seq_run)
  have whole: "trace (snd (seq_run c opts)) =
      trace (initial_state opts) @
      concat (map (event_actions c opts the_stream)
        (word_range (input_skip opts) (input_events opts + input_skip opts))) @
      final_actions c opts"
    by (rule trace_seq_run)
  have candidate: "compare_with_cpu opts \<and> \<not> can_open c (Open_track_candidate e) \<longrightarrow>
      Cerr ''Unable to open file: '' \<in> set (event_actions c opts strm e) \<and>
      (\<forall>r n m. Append_track_candidate r n m \<notin> set (event_actions c opts strm e))"
    using track_candidate_not_opened[where opts = opts and c = c and e = e and strm = strm]
    by blast
  have candidate_status:
    "fst (seq_run (c\<lparr>can_open := (can_open c)(Open_track_candidate e := b)\<rparr>) opts) =
       fst (seq_run c opts)"
    by (simp add: fst_seq_run)
  have candidate_events:
    "processed_events (trace (snd (seq_run
        (c\<lparr>can_open := (can_open c)(Open_track_candidate e := b)\<rparr>) opts))) =
      processed_events (trace (snd (seq_run c opts)))"
    by (simp add: processed_events_seq_run)
  have tempo: "\<not> can_open c Open_tempo_time \<longrightarrow>
      Cerr ''Unable to open file: '' \<in> set (final_actions c opts) \<and>
      Append_tempo_time \<notin> set (final_actions c opts)"
    using tempo_time_not_opened[where c = c and opts = opts] by blast
  have unreadable: "\<not> can_open c Read_tempo_time \<longrightarrow>
      Cerr ''unable to open input file'' \<in> set (final_actions c opts) \<and>
      Write_processing_time \<notin> set (final_actions c opts) \<and>
      fst (seq_run c opts) = 1"
    by (auto simp: final_actions_def fst_seq_run)
  have processing: "can_open c Read_tempo_time \<and> \<not> can_open c Open_processing_time \<longrightarrow>
      Cerr ''unable to open processing_time.txt'' \<in> set (final_actions c opts) \<and>
      Write_processing_time \<notin> set (final_actions c opts) \<and>
      fst (seq_run c opts) = 1"
    using processing_time_not_opened[where c = c and opts = opts]
    by (simp add: fst_seq_run)
  have dump: "\<not> writable fs
        (seeds_filename data_directory get_event_filename ev directory device) \<longrightarrow>
      mywrite data_directory get_event_filename show_link show_scalar ev directory
        seeds_view device fs = fs"
    by (simp add: mywrite_def Let_def)
  from events status whole candidate candidate_status candidate_events tempo unreadable
    processing dump
  show ?thesis by blast
qed

theorem output_open_failures_witness:
  "compare_with_cpu sample_options
   \<and> \<not> can_open sample_collaborators (Open_track_candidate 2)
   \<and> \<not> can_open sample_collaborators Open_tempo_time
   \<and> \<not> can_open sample_collaborators Read_tempo_time
   \<and> Cerr ''Unable to open file: '' \<in> set (event_actions sample_collaborators sample_options
        the_stream 2)
   \<and> Append_tempo_time \<notin> set (final_actions sample_collaborators sample_options)
   \<and> Cerr ''unable to open input file'' \<in> set (final_actions sample_collaborators
        sample_options)
   \<and> fst (seq_run sample_collaborators sample_options) = 1
   \<and> processed_events (trace (snd (seq_run sample_collaborators sample_options))) = [2, 3]
   \<and> can_open (sample_collaborators\<lparr>can_open := (\<lambda>f. f \<noteq> Open_processing_time)\<rparr>)
        Read_tempo_time
   \<and> \<not> can_open (sample_collaborators\<lparr>can_open := (\<lambda>f. f \<noteq> Open_processing_time)\<rparr>)
        Open_processing_time
   \<and> fst (seq_run (sample_collaborators\<lparr>can_open := (\<lambda>f. f \<noteq> Open_processing_time)\<rparr>)
        sample_options) = 1
   \<and> \<not> writable \<lparr>contents = Map.empty, writable = (\<lambda>name. False)\<rparr>
        (seeds_filename ''data/'' (\<lambda>ev suffix. ''event'' @ suffix) 2 ''out/cpu/'' [])
   \<and> mywrite ''data/'' (\<lambda>ev suffix. ''event'' @ suffix) (\<lambda>l. ''0'') (\<lambda>f. ''1'') 2 ''out/cpu/''
        [\<lparr>spB_link = 0 :: nat, spM_link = 1, spT_link = 2, weight = 1 :: nat, z_vertex = 0\<rparr>]
        [] \<lparr>contents = Map.empty, writable = (\<lambda>name. False)\<rparr> =
      \<lparr>contents = Map.empty, writable = (\<lambda>name. False)\<rparr>"
proof -
  let ?c = "sample_collaborators\<lparr>can_open := (\<lambda>f. f \<noteq> Open_processing_time)\<rparr>"
  let ?fs = "\<lparr>contents = Map.empty, writable = (\<lambda>name. False)\<rparr>"
  let ?sds = "[\<lparr>spB_link = 0 :: nat, spM_link = 1, spT_link = 2, weight = 1 :: nat,
      z_vertex = 0\<rparr>]"
  note t1 = output_open_failures[where c = sample_collaborators and opts = sample_options
      and e = 2 and strm = the_stream and b = True and fs = ?fs
      and data_directory = "''data/''"
      and get_event_filename = "\<lambda>ev suffix. ''event'' @ suffix" and ev = 2
      and directory = "''out/cpu/''" and device = "[]" and show_link = "\<lambda>l. ''0''"
      and show_scalar = "\<lambda>f. ''1''" and seeds_view = ?sds]
  note t2 = output_open_failures[where c = ?c and opts = sample_options
      and e = 2 and strm = the_stream and b = True and fs = ?fs
      and data_directory = "''data/''"
      and get_event_filename = "\<lambda>ev suffix. ''event'' @ suffix" and ev = 2
      and directory = "''out/cpu/''" and device = "[]" and show_link = "\<lambda>l. ''0''"
      and show_scalar = "\<lambda>f. ''1''" and seeds_view = ?sds]
  have h1: "compare_with_cpu sample_options" by (simp add: sample_options_def)
  have h2: "\<not> can_open sample_collaborators (Open_track_candidate 2)"
    by (simp add: sample_collaborators_def)
  have h3: "\<not> can_open sample_collaborators Open_tempo_time"
    by (simp add: sample_collaborators_def)
  have h3r: "\<not> can_open sample_collaborators Read_tempo_time"
    by (simp add: sample_collaborators_def)
  have h4: "can_open ?c Read_tempo_time" by simp
  have h5: "\<not> can_open ?c Open_processing_time" by simp
  have h6: "\<not> writable ?fs
      (seeds_filename ''data/'' (\<lambda>ev suffix. ''event'' @ suffix) 2 ''out/cpu/'' [])"
    by simp
  have r: "word_range (input_skip sample_options)
      (input_events sample_options + input_skip sample_options) = [2, 3]"
    by (simp add: sample_options_def word_range_def upt_rec)
  from t1 h1 h2 have c1: "Cerr ''Unable to open file: '' \<in>
      set (event_actions sample_collaborators sample_options the_stream 2)"
    by blast
  from t1 h3 have c2: "Append_tempo_time \<notin> set (final_actions sample_collaborators sample_options)"
    by blast
  from t1 h3r have c2r: "Cerr ''unable to open input file'' \<in>
      set (final_actions sample_collaborators sample_options)"
    and c2s: "fst (seq_run sample_collaborators sample_options) = 1"
    by blast+
  from t1 have "processed_events (trace (snd (seq_run sample_collaborators sample_options))) =
      word_range (input_skip sample_options)
        (input_events sample_options + input_skip sample_options)"
    by blast
  with r have c3: "processed_events (trace (snd (seq_run sample_collaborators sample_options)))
      = [2, 3]"
    by (simp only:)
  from t2 h4 h5 have c4: "fst (seq_run ?c sample_options) = 1"
    by blast
  from t1 h6 have c5: "mywrite ''data/'' (\<lambda>ev suffix. ''event'' @ suffix) (\<lambda>l. ''0'')
      (\<lambda>f. ''1'') 2 ''out/cpu/'' ?sds [] ?fs = ?fs"
    by blast
  from h1 h2 h3 h3r h4 h5 h6 c1 c2 c2r c2s c3 c4 c5 show ?thesis by blast
qed

section \<open>Reproducibility of the pile-up setup\<close>

text \<open>
  Claim C1, as stated: \<open>setup_pu\<close> is a deterministic function of \<open>nvtx\<close>,
  \<open>ntrk_per_vtx\<close> and a configured seed, and does not depend on hardware random state.
  It fails: the engine that draws the vertex positions is seeded with a value read from
  \<open>std::random_device\<close>, and two calls with the same arguments that read different values
  from the device place the vertex differently. The random-number library is the instance
  \<open>seed_echo_library\<close> of the parameter.
\<close>

theorem setup_pu_positions_counterexample:
  "map cfg_origin (setup_pu seed_echo_library 1 42 1 1) = [(2, 3, 1)]
   \<and> map cfg_origin (setup_pu seed_echo_library 2 42 1 1) = [(3, 4, 2)]
   \<and> setup_pu seed_echo_library 1 42 1 1 \<noteq> setup_pu seed_echo_library 2 42 1 1"
proof -
  have a: "map cfg_origin (setup_pu seed_echo_library 1 42 1 1) = [(2, 3, 1)]"
    by (simp add: setup_pu_def setup_pu_loop.simps pu_vertex_def seed_echo_library_def)
  have b: "map cfg_origin (setup_pu seed_echo_library 2 42 1 1) = [(3, 4, 2)]"
    by (simp add: setup_pu_def setup_pu_loop.simps pu_vertex_def seed_echo_library_def)
  have "setup_pu seed_echo_library 1 42 1 1 \<noteq> setup_pu seed_echo_library 2 42 1 1"
  proof
    assume "setup_pu seed_echo_library 1 42 1 1 = setup_pu seed_echo_library 2 42 1 1"
    then have "map cfg_origin (setup_pu seed_echo_library 1 42 1 1) =
        map cfg_origin (setup_pu seed_echo_library 2 42 1 1)"
      by simp
    then have "[(2, 3, 1 :: u32)] = [(3 :: u32, 4 :: u32, 2)]"
      by (simp only: a b)
    then show False by simp
  qed
  with a b show ?thesis by blast
qed

text \<open>
  Claim C1, amended. \<open>setup_pu\<close> makes \<open>nvtx\<close> generators; generator \<open>i\<close> has
  \<open>ntrk_per_vtx\<close> tracks and the seed \<open>seed0 + i\<close>, where \<open>seed0\<close> is the default seed
  of a generator configuration. These counts and seeds are the same in every call with the
  same arguments, whatever the random-number library does and whatever value is read
  from \<open>std::random_device\<close>. The vertex positions are drawn from an engine seeded with
  that value and are reproducible only together with it.
\<close>

theorem setup_pu_seeds_and_counts:
  "map (\<lambda>g. (cfg_n_tracks g, cfg_seed g)) (setup_pu L seed_gen seed0 nvtx ntrk_per_vtx) =
     map (\<lambda>i. (ntrk_per_vtx, seed0 + word_of_int i)) [0..nvtx - 1]
   \<and> length (setup_pu L seed_gen seed0 nvtx ntrk_per_vtx) = nat nvtx"
proof -
  have m: "map (\<lambda>g. (cfg_n_tracks g, cfg_seed g))
        (setup_pu L seed_gen seed0 nvtx ntrk_per_vtx) =
      map (\<lambda>i. (ntrk_per_vtx, seed0 + word_of_int i)) [0..nvtx - 1]"
    by (simp add: setup_pu_def setup_pu_loop_seeds)
  have "length (setup_pu L seed_gen seed0 nvtx ntrk_per_vtx) =
      length (map (\<lambda>g. (cfg_n_tracks g, cfg_seed g))
        (setup_pu L seed_gen seed0 nvtx ntrk_per_vtx))"
    by simp
  also have "\<dots> = nat nvtx" by (simp only: m) simp
  finally show ?thesis using m by blast
qed

section \<open>The rows of the seed file\<close>

text \<open>
  Claim C6. A call of the seed writer opens one file, named from the event, the directory
  and the device label, with truncation: when the open succeeds, the new content of that
  file is the header line followed by one row per seed, whatever the file held before, and
  no other file changes. The claim that a data row holds exactly the five fields of the
  header does not hold of the code: a row ends with a comma after \<open>z_vertex\<close>, so it has
  five commas where the header has four.
\<close>

theorem seed_rows_end_with_a_comma:
  "contents (mywrite data_directory get_event_filename show_link show_scalar event directory
       seeds_view device (fs\<lparr>writable := (\<lambda>name. True)\<rparr>)) =
     (contents fs)(seeds_filename data_directory get_event_filename event directory device \<mapsto>
       seeds_file_text show_link show_scalar seeds_view)
   \<and> seeds_file_text show_link show_scalar [sd] =
     ''spB_link,spM_link,spT_link,weight,z_vertex'' @ endl @
     show_link (spB_link sd) @ '','' @ show_link (spM_link sd) @ '','' @
     show_link (spT_link sd) @ '','' @
     show_scalar (weight sd) @ '','' @ show_scalar (z_vertex sd) @ '','' @ endl
   \<and> last (seed_row show_link show_scalar sd) = CHR '',''
   \<and> last seeds_header = CHR ''x''
   \<and> count_list seeds_header (CHR '','') = 4
   \<and> count_list (seed_row show_link show_scalar sd) (CHR '','') =
     5 + count_list (show_link (spB_link sd)) (CHR '','') +
     count_list (show_link (spM_link sd)) (CHR '','') +
     count_list (show_link (spT_link sd)) (CHR '','') +
     count_list (show_scalar (weight sd)) (CHR '','') +
     count_list (show_scalar (z_vertex sd)) (CHR '','')"
  by (simp add: mywrite_def Let_def seeds_file_text_def seed_row_def seeds_header_def)


end
